theory Spec2Isabelle
  imports Main "HOL-Library.Char_ord" "HOL-Library.List_Lexorder"
begin

section \<open>Credential verification, token rotation and revocation of the photo-filter API\<close>

text \<open>
  The development embeds the authentication layer of \<^verbatim>\<open>server.js\<close> (the DynamoDB-backed
  server), of the user repository \<^verbatim>\<open>dynamodb.js\<close> and of \<^verbatim>\<open>cognito.js\<close>.

  Conventions.
  \<^item> \<open>now\<close> is the reading of \<^verbatim>\<open>Date.now()\<close> in milliseconds; one request is handled at
    one reading of the clock.
  \<^item> A JavaScript value that may be \<^verbatim>\<open>undefined\<close> or \<^verbatim>\<open>null\<close> is an \<open>option\<close>.
  \<^item> An exception is a value of type \<open>exn\<close> on the left of a sum.
  \<^item> Of a JSON reply the status, the message, the tokens and the user summary are kept;
    the \<^verbatim>\<open>success\<close> flag follows from the status, and console output is left out.
  \<^item> Every \<^verbatim>\<open>docClient.send\<close> may throw. The world carries the schedule of these faults:
    the head of \<open>faults\<close> says whether the next call to the store throws, and the empty
    schedule means that the store answers from now on.
\<close>

subsection \<open>JavaScript truthiness of strings\<close>

definition truthy :: "string option \<Rightarrow> bool" where
  "truthy v = (case v of None \<Rightarrow> False | Some s \<Rightarrow> s \<noteq> [])"

text \<open>\<^verbatim>\<open>a || b\<close> on optional strings.\<close>

definition or_else :: "string option \<Rightarrow> string option \<Rightarrow> string option" where
  "or_else a b = (if truthy a then a else b)"

text \<open>The value of a string when it is truthy.\<close>

definition nonempty :: "string option \<Rightarrow> string option" where
  "nonempty v = (if truthy v then v else None)"

subsection \<open>Exceptions\<close>

datatype exn =
    StoreError
  | UsernameAlreadyExists
  | TokenExpiredError
  | JsonWebTokenError
  | CognitoError string
  | MailError

subsection \<open>Local token codec (the calls to jsonwebtoken)\<close>

text \<open>The payload that \<^verbatim>\<open>jwt.sign\<close> serialises: \<^verbatim>\<open>{id, username, type, iat, exp}\<close>.\<close>

record payload =
  p_id :: "string option"
  p_username :: string
  p_type :: "string option"
  p_iat :: nat
  p_exp :: nat

text \<open>
  A bearer string is either not a well-formed token at all, or a payload together with
  the secret whose signature it carries.
\<close>

datatype jwt = Malformed string | Signed payload string

definition JWT_SECRET :: string where
  "JWT_SECRET = ''photofilter-pro-secret-key-2024''"

text \<open>\<^verbatim>\<open>'24h'\<close> and \<^verbatim>\<open>'7d'\<close>, in seconds.\<close>

definition JWT_EXPIRES_IN :: nat where
  "JWT_EXPIRES_IN = 24 * 60 * 60"

definition REFRESH_TOKEN_EXPIRES_IN :: nat where
  "REFRESH_TOKEN_EXPIRES_IN = 7 * 24 * 60 * 60"

text \<open>
  Modelled from the spec: \<^verbatim>\<open>jwt.sign\<close> of the jsonwebtoken library, which is not part of
  the sources. The spec's Local Token Codec: ``\<^verbatim>\<open>issue(subject, kind, ttl)\<close> serializes
  \<^verbatim>\<open>{subject_id, username, kind, iat, exp}\<close> and signs with a server-held secret''. The
  issued-at claim is the clock in whole seconds, the expiry is issued-at plus the
  lifetime, and the token is a function of payload and secret only.
\<close>

definition jwt_sign :: "string option \<Rightarrow> string \<Rightarrow> string option \<Rightarrow> string \<Rightarrow> nat \<Rightarrow> nat \<Rightarrow> jwt" where
  "jwt_sign uid name kind secret expiresIn now =
     Signed \<lparr>p_id = uid, p_username = name, p_type = kind,
             p_iat = now div 1000, p_exp = now div 1000 + expiresIn\<rparr> secret"

text \<open>
  Modelled from the spec: \<^verbatim>\<open>jwt.verify\<close> of the jsonwebtoken library. The spec's Local
  Token Codec: ``\<^verbatim>\<open>verify(token)\<close> checks signature first (tamper gives Invalid), then
  expiry (gives Expired)''. The library reports them as \<^verbatim>\<open>JsonWebTokenError\<close> and
  \<^verbatim>\<open>TokenExpiredError\<close>; a token is expired once the clock in seconds has reached \<^verbatim>\<open>exp\<close>.
\<close>

definition jwt_verify :: "jwt \<Rightarrow> string \<Rightarrow> nat \<Rightarrow> exn + payload" where
  "jwt_verify t secret now =
     (case t of
        Malformed s \<Rightarrow> Inl JsonWebTokenError
      | Signed p key \<Rightarrow>
          if key \<noteq> secret then Inl JsonWebTokenError
          else if p_exp p \<le> now div 1000 then Inl TokenExpiredError
          else Inr p)"

text \<open>\<^verbatim>\<open>!token\<close> for a bearer string: only the empty string is falsy.\<close>

definition falsy_jwt :: "jwt option \<Rightarrow> bool" where
  "falsy_jwt t = (case t of None \<Rightarrow> True | Some (Malformed s) \<Rightarrow> s = [] | Some (Signed p k) \<Rightarrow> False)"

text \<open>The value of a bearer string when it is truthy.\<close>

definition truthy_jwt :: "jwt option \<Rightarrow> jwt option" where
  "truthy_jwt v = (if falsy_jwt v then None else v)"

subsection \<open>The user table (dynamodb.js)\<close>

text \<open>
  An item of the table. \<open>username\<close> is the sort key and always present; every other
  attribute may be missing, since an \<^verbatim>\<open>UpdateCommand\<close> on a key that is not in the table
  creates an item holding the key and the attributes it sets.
\<close>

record item =
  username :: string
  user_id :: "string option"
  password :: "string option"
  email :: "string option"
  createdAt :: "nat option"
  refreshTokens :: "jwt list option"
  emailVerified :: "bool option"
  emailVerificationToken :: "string option"

text \<open>
  The table is the list of its items in scan order. All items share the partition key,
  so the scan order is the order of the sort key.
\<close>

type_synonym table = "(string \<times> item) list"

record world =
  table :: table
  faults :: "bool list"

text \<open>
  One call of \<^verbatim>\<open>docClient.send\<close>: it consumes the next entry of the fault schedule and
  says whether the store answered.
\<close>

definition send :: "world \<Rightarrow> bool \<times> world" where
  "send w = (case faults w of [] \<Rightarrow> (True, w) | f # fs \<Rightarrow> (\<not> f, w\<lparr>faults := fs\<rparr>))"

text \<open>
  Writing an item: an item under the same key is replaced where it stands, a new key
  takes its place in the order of the sort key.
\<close>

fun put_item :: "string \<Rightarrow> item \<Rightarrow> table \<Rightarrow> table" where
  "put_item k v [] = [(k, v)]"
| "put_item k v ((k', v') # rest) =
     (if k = k' then (k, v) # rest
      else if k < k' then (k, v) # (k', v') # rest
      else (k', v') # put_item k v rest)"

definition blank_item :: "string \<Rightarrow> item" where
  "blank_item name =
     \<lparr>username = name, user_id = None, password = None, email = None, createdAt = None,
      refreshTokens = None, emailVerified = None, emailVerificationToken = None\<rparr>"

text \<open>\<^verbatim>\<open>GetCommand\<close>: the item under the key, or nothing.\<close>

definition GetCommand :: "string \<Rightarrow> world \<Rightarrow> (exn + item option) \<times> world" where
  "GetCommand name w =
     (let (ok, w') = send w in
      if \<not> ok then (Inl StoreError, w') else (Inr (map_of (table w') name), w'))"

text \<open>
  \<^verbatim>\<open>UpdateCommand\<close> with a \<^verbatim>\<open>SET\<close> expression and \<^verbatim>\<open>ReturnValues: 'ALL_NEW'\<close>: one atomic
  write of the store, applied to the item under the key or to a new item with that key.
\<close>

definition UpdateCommand :: "string \<Rightarrow> (item \<Rightarrow> item) \<Rightarrow> world \<Rightarrow> (exn + item) \<times> world" where
  "UpdateCommand name f w =
     (let (ok, w') = send w in
      if \<not> ok then (Inl StoreError, w')
      else
        let it = f (case map_of (table w') name of None \<Rightarrow> blank_item name | Some old \<Rightarrow> old)
        in (Inr it, w'\<lparr>table := put_item name it (table w')\<rparr>))"

text \<open>\<^verbatim>\<open>PutCommand\<close> under the condition \<^verbatim>\<open>attribute_not_exists(username)\<close>.\<close>

datatype put_result = Stored | ConditionalCheckFailed | PutFailed

definition PutCommand :: "item \<Rightarrow> world \<Rightarrow> put_result \<times> world" where
  "PutCommand it w =
     (let (ok, w') = send w in
      if \<not> ok then (PutFailed, w')
      else if map_of (table w') (username it) \<noteq> None then (ConditionalCheckFailed, w')
      else (Stored, w'\<lparr>table := put_item (username it) it (table w')\<rparr>))"

text \<open>
  \<^verbatim>\<open>ScanCommand\<close> with \<^verbatim>\<open>Limit: 1\<close> and a filter expression: the store evaluates at most
  \<^verbatim>\<open>Limit\<close> items, in scan order, and applies the filter to the items it evaluated.
\<close>

definition ScanCommand :: "nat \<Rightarrow> (item \<Rightarrow> bool) \<Rightarrow> world \<Rightarrow> (exn + item list) \<times> world" where
  "ScanCommand limit flt w =
     (let (ok, w') = send w in
      if \<not> ok then (Inl StoreError, w')
      else (Inr (filter flt (map snd (take limit (table w')))), w'))"

subsubsection \<open>UserRepository\<close>

definition getUserByUsername :: "string \<Rightarrow> world \<Rightarrow> (exn + item option) \<times> world" where
  "getUserByUsername name w = GetCommand name w"

text \<open>
  \<open>createUser\<close> builds the item from \<^verbatim>\<open>userData\<close> with its defaults and puts it under the
  condition that the username is new.
\<close>

definition createUser :: "item \<Rightarrow> world \<Rightarrow> (exn + item) \<times> world" where
  "createUser userData w =
     (let userItem =
            \<lparr>username = username userData,
             user_id = or_else (user_id userData) (Some (username userData)),
             password = password userData,
             email = Some (case nonempty (email userData) of None \<Rightarrow> [] | Some e \<Rightarrow> e),
             createdAt = createdAt userData,
             refreshTokens = Some (case refreshTokens userData of None \<Rightarrow> [] | Some ts \<Rightarrow> ts),
             emailVerified = Some (case emailVerified userData of None \<Rightarrow> False | Some b \<Rightarrow> b),
             emailVerificationToken = nonempty (emailVerificationToken userData)\<rparr>
      in case PutCommand userItem w of
           (Stored, w') \<Rightarrow> (Inr userItem, w')
         | (ConditionalCheckFailed, w') \<Rightarrow> (Inl UsernameAlreadyExists, w')
         | (PutFailed, w') \<Rightarrow> (Inl StoreError, w'))"

definition updateUser :: "string \<Rightarrow> (item \<Rightarrow> item) \<Rightarrow> world \<Rightarrow> (exn + item) \<times> world" where
  "updateUser name updates w = UpdateCommand name updates w"

text \<open>\<^verbatim>\<open>SET refreshTokens = list_append(if_not_exists(refreshTokens, []), [token])\<close>.\<close>

definition addRefreshToken :: "string \<Rightarrow> jwt \<Rightarrow> world \<Rightarrow> (exn + item) \<times> world" where
  "addRefreshToken name rt w =
     UpdateCommand name
       (\<lambda>it. it\<lparr>refreshTokens :=
                 Some ((case refreshTokens it of None \<Rightarrow> [] | Some ts \<Rightarrow> ts) @ [rt])\<rparr>) w"

text \<open>Read the user, filter the list in the server, write the filtered list back.\<close>

definition removeRefreshToken :: "string \<Rightarrow> jwt \<Rightarrow> world \<Rightarrow> (exn + item option) \<times> world" where
  "removeRefreshToken name rt w =
     (case getUserByUsername name w of
        (Inl e, w') \<Rightarrow> (Inl e, w')
      | (Inr None, w') \<Rightarrow> (Inr None, w')
      | (Inr (Some user), w') \<Rightarrow>
          (case refreshTokens user of
             None \<Rightarrow> (Inr (Some user), w')
           | Some ts \<Rightarrow>
               let updatedTokens = filter (\<lambda>t. t \<noteq> rt) ts in
               if length updatedTokens = length ts then (Inr (Some user), w')
               else
                 (case UpdateCommand name (\<lambda>it. it\<lparr>refreshTokens := Some updatedTokens\<rparr>) w' of
                    (Inl e, w'') \<Rightarrow> (Inl e, w'')
                  | (Inr it, w'') \<Rightarrow> (Inr (Some it), w''))))"

definition clearRefreshTokens :: "string \<Rightarrow> world \<Rightarrow> (exn + item) \<times> world" where
  "clearRefreshTokens name w = UpdateCommand name (\<lambda>it. it\<lparr>refreshTokens := Some []\<rparr>) w"

text \<open>The membership check catches every error of the lookup and answers \<^verbatim>\<open>false\<close>.\<close>

definition hasRefreshToken :: "string \<Rightarrow> jwt \<Rightarrow> world \<Rightarrow> bool \<times> world" where
  "hasRefreshToken name rt w =
     (case getUserByUsername name w of
        (Inl e, w') \<Rightarrow> (False, w')
      | (Inr None, w') \<Rightarrow> (False, w')
      | (Inr (Some user), w') \<Rightarrow>
          (case refreshTokens user of
             None \<Rightarrow> (False, w')
           | Some ts \<Rightarrow> (rt \<in> set ts, w')))"

definition getUserByVerificationToken :: "string \<Rightarrow> world \<Rightarrow> (exn + item option) \<times> world" where
  "getUserByVerificationToken tok w =
     (case ScanCommand 1 (\<lambda>it. emailVerificationToken it = Some tok) w of
        (Inl e, w') \<Rightarrow> (Inl e, w')
      | (Inr items, w') \<Rightarrow> (Inr (case items of [] \<Rightarrow> None | it # rest \<Rightarrow> Some it), w'))"

subsection \<open>Responses\<close>

text \<open>
  The JSON body of a response, as far as the authentication layer fills it: the access
  token (\<^verbatim>\<open>token\<close>), the refresh token and the user summary. \<^verbatim>\<open>null\<close> is \<open>None\<close>.
\<close>

record user_view =
  v_id :: "string option"
  v_username :: string
  v_email :: "string option"
  v_emailVerified :: "bool option"
  v_createdAt :: "nat option"

record response =
  status :: nat
  message :: string
  body_token :: "jwt option"
  body_refreshToken :: "jwt option"
  body_user :: "user_view option"

definition json_message :: "nat \<Rightarrow> string \<Rightarrow> response" where
  "json_message code msg =
     \<lparr>status = code, message = msg, body_token = None, body_refreshToken = None, body_user = None\<rparr>"

subsection \<open>External identity verifier (cognito.js)\<close>

record cognito_payload =
  sub :: string
  cognito_username :: "string option"
  plain_username :: "string option"
  cp_email :: "string option"
  cp_email_verified :: "bool option"

text \<open>
  \<open>jwtVerifier\<close> of the module: \<open>None\<close> when no user pool is configured, else the
  verifier of the aws-jwt-verify library, which answers with the payload or throws, for
  a token and a reading of the clock.
\<close>

type_synonym jwtVerifier = "(jwt \<Rightarrow> nat \<Rightarrow> exn + cognito_payload) option"

definition verifyToken :: "jwtVerifier \<Rightarrow> jwt \<Rightarrow> nat \<Rightarrow> exn + cognito_payload" where
  "verifyToken jwtVerifier idToken now =
     (case jwtVerifier of
        None \<Rightarrow> Inl (CognitoError ''JWT verifier not initialized. Check COGNITO_USER_POOL_ID configuration.'')
      | Some verifier \<Rightarrow> (case verifier idToken now of Inl e \<Rightarrow> Inl e | Inr p \<Rightarrow> Inr p))"

subsection \<open>Unified authentication middleware\<close>

record cognito_user =
  cu_id :: string
  cu_username :: "string option"
  cu_email :: "string option"
  cu_emailVerified :: "bool option"

text \<open>\<^verbatim>\<open>req.user\<close>: the decoded payload of a local token, or the mapped Cognito claims.\<close>

datatype req_user = LegacyUser payload | CognitoUser cognito_user

definition req_username :: "req_user \<Rightarrow> string option" where
  "req_username u = (case u of LegacyUser p \<Rightarrow> Some (p_username p) | CognitoUser c \<Rightarrow> cu_username c)"

datatype auth_result = Reject response | Next req_user

text \<open>
  The \<^verbatim>\<open>Authorization\<close> header is given split at the spaces
  (\<^verbatim>\<open>authHeader.split(' ')\<close>), \<open>None\<close> when the request has no such header.
\<close>

definition bearer :: "jwt list option \<Rightarrow> jwt option" where
  "bearer authHeader =
     (case authHeader of
        None \<Rightarrow> None
      | Some parts \<Rightarrow> (case parts of [] \<Rightarrow> None | [scheme] \<Rightarrow> None | scheme # t # rest \<Rightarrow> Some t))"

text \<open>
  \<open>cognito\<close> is the loaded module (\<open>None\<close> when \<^verbatim>\<open>require('./cognito')\<close> threw). Whatever
  \<open>verifyToken\<close> throws is caught and dropped; then the local codec decides.
\<close>

definition authenticateToken :: "jwtVerifier option \<Rightarrow> jwt list option \<Rightarrow> nat \<Rightarrow> auth_result" where
  "authenticateToken cognito authHeader now =
     (case truthy_jwt (bearer authHeader) of
        None \<Rightarrow> Reject (json_message 401 ''Access token required'')
      | Some t \<Rightarrow>
          (case (case cognito of
                   None \<Rightarrow> None
                 | Some module \<Rightarrow> (case verifyToken module t now of Inl cognitoError \<Rightarrow> None | Inr p \<Rightarrow> Some p)) of
             Some p \<Rightarrow>
               Next (CognitoUser \<lparr>cu_id = sub p,
                                  cu_username = or_else (cognito_username p) (plain_username p),
                                  cu_email = cp_email p,
                                  cu_emailVerified = cp_email_verified p\<rparr>)
           | None \<Rightarrow>
               (case jwt_verify t JWT_SECRET now of
                  Inl err \<Rightarrow>
                    Reject (json_message (if err = TokenExpiredError then 401 else 403)
                              (if err = TokenExpiredError then ''Token expired''
                               else ''Invalid or expired token''))
                | Inr decoded \<Rightarrow> Next (LegacyUser decoded))))"

subsection \<open>Session endpoints\<close>

definition user_summary :: "item \<Rightarrow> user_view" where
  "user_summary u =
     \<lparr>v_id = user_id u, v_username = username u, v_email = email u,
      v_emailVerified = None, v_createdAt = createdAt u\<rparr>"

text \<open>
  \<^verbatim>\<open>POST /api/login\<close>. \<open>compare\<close> is \<^verbatim>\<open>bcrypt.compare\<close>, which throws on a missing hash.
\<close>

definition login ::
  "(string \<Rightarrow> string \<Rightarrow> bool) \<Rightarrow> nat \<Rightarrow> string option \<Rightarrow> string option \<Rightarrow> world \<Rightarrow> response \<times> world" where
  "login compare now username_in password_in w =
     (case nonempty username_in of
        None \<Rightarrow> (json_message 400 ''Username and password are required'', w)
      | Some name \<Rightarrow>
     (case nonempty password_in of
        None \<Rightarrow> (json_message 400 ''Username and password are required'', w)
      | Some pw \<Rightarrow>
     (case getUserByUsername name w of
        (Inl e, w1) \<Rightarrow> (json_message 500 ''Login failed'', w1)
      | (Inr None, w1) \<Rightarrow> (json_message 401 ''Invalid credentials'', w1)
      | (Inr (Some u), w1) \<Rightarrow>
     (case password u of
        None \<Rightarrow> (json_message 500 ''Login failed'', w1)
      | Some hash \<Rightarrow>
          if compare pw hash then
            (let newToken = jwt_sign (user_id u) (username u) None JWT_SECRET JWT_EXPIRES_IN now;
                 newRefreshToken =
                   jwt_sign (user_id u) (username u) (Some ''refresh'') JWT_SECRET
                     REFRESH_TOKEN_EXPIRES_IN now
             in (case addRefreshToken name newRefreshToken w1 of
                   (Inl e, w2) \<Rightarrow> (json_message 500 ''Login failed'', w2)
                 | (Inr stored, w2) \<Rightarrow>
                     (\<lparr>status = 200, message = ''Login successful'',
                       body_token = Some newToken, body_refreshToken = Some newRefreshToken,
                       body_user = Some (user_summary u)\<rparr>, w2)))
          else (json_message 401 ''Invalid credentials'', w1)))))"

text \<open>
  \<^verbatim>\<open>POST /api/refresh\<close>, in the two parts that the handler runs between its awaits. The
  first part verifies the token, loads the user and checks that the token is stored.
\<close>

definition refresh_check ::
  "nat \<Rightarrow> jwt option \<Rightarrow> world \<Rightarrow> (response + (jwt \<times> payload \<times> item)) \<times> world" where
  "refresh_check now body w =
     (case truthy_jwt body of
        None \<Rightarrow> (Inl (json_message 400 ''Refresh token is required''), w)
      | Some rt \<Rightarrow>
     (case jwt_verify rt JWT_SECRET now of
        Inl e \<Rightarrow> (Inl (json_message 403 ''Invalid or expired refresh token''), w)
      | Inr decoded \<Rightarrow>
          if p_type decoded \<noteq> Some ''refresh'' then (Inl (json_message 403 ''Invalid token type''), w)
          else
     (case getUserByUsername (p_username decoded) w of
        (Inl e, w1) \<Rightarrow> (Inl (json_message 403 ''Invalid or expired refresh token''), w1)
      | (Inr None, w1) \<Rightarrow> (Inl (json_message 403 ''Invalid refresh token''), w1)
      | (Inr (Some u), w1) \<Rightarrow>
     (case hasRefreshToken (p_username decoded) rt w1 of
        (False, w2) \<Rightarrow> (Inl (json_message 403 ''Invalid refresh token''), w2)
      | (True, w2) \<Rightarrow> (Inr (rt, decoded, u), w2)))))"

text \<open>The second part signs the new pair, removes the old token and appends the new one.\<close>

definition refresh_rotate :: "nat \<Rightarrow> jwt \<times> payload \<times> item \<Rightarrow> world \<Rightarrow> response \<times> world" where
  "refresh_rotate now ctx w =
     (case ctx of (rt, decoded, u) \<Rightarrow>
        (let newToken = jwt_sign (user_id u) (username u) None JWT_SECRET JWT_EXPIRES_IN now;
             newRefreshToken =
               jwt_sign (user_id u) (username u) (Some ''refresh'') JWT_SECRET
                 REFRESH_TOKEN_EXPIRES_IN now
         in (case removeRefreshToken (p_username decoded) rt w of
               (Inl e, w1) \<Rightarrow> (json_message 403 ''Invalid or expired refresh token'', w1)
             | (Inr removed, w1) \<Rightarrow>
            (case addRefreshToken (p_username decoded) newRefreshToken w1 of
               (Inl e, w2) \<Rightarrow> (json_message 403 ''Invalid or expired refresh token'', w2)
             | (Inr stored, w2) \<Rightarrow>
                 (\<lparr>status = 200, message = ''Token refreshed successfully'',
                   body_token = Some newToken, body_refreshToken = Some newRefreshToken,
                   body_user = Some (user_summary u)\<rparr>, w2)))))"

definition refresh :: "nat \<Rightarrow> jwt option \<Rightarrow> world \<Rightarrow> response \<times> world" where
  "refresh now body w =
     (case refresh_check now body w of
        (Inl resp, w') \<Rightarrow> (resp, w')
      | (Inr ctx, w') \<Rightarrow> refresh_rotate now ctx w')"

text \<open>
  \<^verbatim>\<open>POST /api/logout\<close> behind the middleware. A request whose principal has no username
  makes the store call throw.
\<close>

definition logout :: "jwtVerifier option \<Rightarrow> nat \<Rightarrow> jwt list option \<Rightarrow> world \<Rightarrow> response \<times> world" where
  "logout cognito now authHeader w =
     (case authenticateToken cognito authHeader now of
        Reject resp \<Rightarrow> (resp, w)
      | Next u \<Rightarrow>
          (case nonempty (req_username u) of
             None \<Rightarrow> (json_message 500 ''Logout failed'', w)
           | Some name \<Rightarrow>
               (case clearRefreshTokens name w of
                  (Inl e, w') \<Rightarrow> (json_message 500 ''Logout failed'', w')
                | (Inr cleared, w') \<Rightarrow> (json_message 200 ''Logged out successfully'', w'))))"

text \<open>
  \<open>sendVerificationEmail\<close> answers \<^verbatim>\<open>true\<close> when the transporter was created and the mail
  was sent, and \<^verbatim>\<open>false\<close> when either threw. \<open>mailer\<close> is the outcome of these two calls.
\<close>

definition sendVerificationEmail :: "exn + unit \<Rightarrow> bool" where
  "sendVerificationEmail mailer = (case mailer of Inl e \<Rightarrow> False | Inr sent \<Rightarrow> True)"

text \<open>
  \<^verbatim>\<open>POST /api/register\<close>. \<open>hashedPassword\<close> is the value of \<^verbatim>\<open>bcrypt.hash(password, 10)\<close> and
  \<open>uuid\<close> the value of \<^verbatim>\<open>uuidv4()\<close>.
\<close>

definition register ::
  "string \<Rightarrow> string \<Rightarrow> exn + unit \<Rightarrow> nat \<Rightarrow> string option \<Rightarrow> string option \<Rightarrow> string option
     \<Rightarrow> world \<Rightarrow> response \<times> world" where
  "register hashedPassword uuid mailer now username_in password_in email_in w =
     (case nonempty username_in of
        None \<Rightarrow> (json_message 400 ''Username and password are required'', w)
      | Some name \<Rightarrow>
     (case nonempty password_in of
        None \<Rightarrow> (json_message 400 ''Username and password are required'', w)
      | Some pw \<Rightarrow>
     (case getUserByUsername name w of
        (Inl e, w1) \<Rightarrow> (json_message 500 ''Registration failed'', w1)
      | (Inr (Some existingUser), w1) \<Rightarrow> (json_message 409 ''Username already exists'', w1)
      | (Inr None, w1) \<Rightarrow>
          (let userData =
                 \<lparr>username = name, user_id = Some name, password = Some hashedPassword,
                  email = Some (case nonempty email_in of None \<Rightarrow> [] | Some e \<Rightarrow> e),
                  createdAt = Some now, refreshTokens = Some [],
                  emailVerified = Some False, emailVerificationToken = Some uuid\<rparr>
           in
     (case createUser userData w1 of
        (Inl e, w2) \<Rightarrow>
          (if e = UsernameAlreadyExists then json_message 409 ''Username already exists''
           else json_message 500 ''Registration failed'', w2)
      | (Inr created, w2) \<Rightarrow>
          (let emailSent = (if truthy email_in then sendVerificationEmail mailer else False);
               view = \<lparr>v_id = user_id userData, v_username = username userData,
                       v_email = email userData, v_emailVerified = emailVerified userData,
                       v_createdAt = createdAt userData\<rparr>;
               msg = (if truthy email_in then
                        (if emailSent then
                           ''User registered successfully. Please check your email to verify your account.''
                         else ''User registered successfully, but verification email could not be sent.'')
                      else ''User registered successfully'')
           in
             if truthy email_in \<and> \<not> emailSent then
               (\<lparr>status = 201, message = msg, body_token = None, body_refreshToken = None,
                 body_user = Some view\<rparr>, w2)
             else
               (let newToken =
                      jwt_sign (user_id userData) (username userData) None JWT_SECRET JWT_EXPIRES_IN now;
                    newRefreshToken =
                      jwt_sign (user_id userData) (username userData) (Some ''refresh'') JWT_SECRET
                        REFRESH_TOKEN_EXPIRES_IN now
                in (case addRefreshToken name newRefreshToken w2 of
                      (Inl e, w3) \<Rightarrow> (json_message 500 ''Registration failed'', w3)
                    | (Inr stored, w3) \<Rightarrow>
                        (\<lparr>status = 201, message = msg, body_token = Some newToken,
                          body_refreshToken = Some newRefreshToken, body_user = Some view\<rparr>,
                         w3)))))))))"

text \<open>\<^verbatim>\<open>GET /api/verify-email\<close>.\<close>

definition verify_email :: "nat \<Rightarrow> string option \<Rightarrow> world \<Rightarrow> response \<times> world" where
  "verify_email now token_in w =
     (case nonempty token_in of
        None \<Rightarrow> (json_message 400 ''Verification token is required'', w)
      | Some tok \<Rightarrow>
     (case getUserByVerificationToken tok w of
        (Inl e, w1) \<Rightarrow> (json_message 500 ''Email verification failed'', w1)
      | (Inr None, w1) \<Rightarrow> (json_message 404 ''Invalid or expired verification token'', w1)
      | (Inr (Some userToVerify), w1) \<Rightarrow>
     (case updateUser (username userToVerify)
             (\<lambda>it. it\<lparr>emailVerified := Some True, emailVerificationToken := None\<rparr>) w1 of
        (Inl e, w2) \<Rightarrow> (json_message 500 ''Email verification failed'', w2)
      | (Inr updated, w2) \<Rightarrow>
          (let accessToken =
                 jwt_sign (user_id userToVerify) (username userToVerify) None JWT_SECRET
                   JWT_EXPIRES_IN now;
               newRefreshToken =
                 jwt_sign (user_id userToVerify) (username userToVerify) (Some ''refresh'')
                   JWT_SECRET REFRESH_TOKEN_EXPIRES_IN now
           in (case addRefreshToken (username userToVerify) newRefreshToken w2 of
                 (Inl e, w3) \<Rightarrow> (json_message 500 ''Email verification failed'', w3)
               | (Inr stored, w3) \<Rightarrow>
                   (\<lparr>status = 200,
                     message = ''Email verified successfully! You can now use all features.'',
                     body_token = Some accessToken, body_refreshToken = Some newRefreshToken,
                     body_user =
                       Some \<lparr>v_id = user_id userToVerify, v_username = username userToVerify,
                             v_email = email userToVerify, v_emailVerified = Some True,
                             v_createdAt = createdAt userToVerify\<rparr>\<rparr>, w3))))))"

subsection \<open>Share links\<close>

text \<open>\<^verbatim>\<open>sharedImages\<close>, the map of the server process from share token to binding.\<close>

record shared_image =
  imageId :: string
  filename :: string
  filterName :: string
  userId :: "string option"
  expiresAt :: int
  shared_createdAt :: int

type_synonym sharedImages = "string \<rightharpoonup> shared_image"

fun startsWith :: "string \<Rightarrow> string \<Rightarrow> bool" where
  "startsWith s [] = True"
| "startsWith [] (p # ps) = False"
| "startsWith (c # cs) (p # ps) = (c = p \<and> startsWith cs ps)"

fun includes_str :: "string \<Rightarrow> string \<Rightarrow> bool" where
  "includes_str [] p = (p = [])"
| "includes_str (c # cs) p = (if startsWith (c # cs) p then True else includes_str cs p)"

datatype share_reply = ShareCreated string int | ShareError nat string

text \<open>The largest time value of a \<^verbatim>\<open>Date\<close>; beyond it \<^verbatim>\<open>toISOString\<close> throws.\<close>

definition MAX_DATE :: int where
  "MAX_DATE = 8640000000000000"

text \<open>
  \<^verbatim>\<open>POST /api/share\<close> after the middleware. \<open>processed\<close> is the listing of the directory of
  processed images, \<open>uuid\<close> the value of \<^verbatim>\<open>uuidv4()\<close>, and \<open>expiresInHours\<close> is \<open>None\<close> when
  the body leaves it undefined, which selects the default of 24 hours. A JSON \<^verbatim>\<open>null\<close> does
  not select the default and counts as 0 in the product, so it is \<open>Some 0\<close>.
\<close>

definition share ::
  "string list \<Rightarrow> string \<Rightarrow> nat \<Rightarrow> string option \<Rightarrow> string option \<Rightarrow> string option \<Rightarrow> int option
     \<Rightarrow> sharedImages \<Rightarrow> share_reply \<times> sharedImages" where
  "share processed uuid now requester imageId_in filterName_in expiresInHours_in m =
     (let expiresInHours = (case expiresInHours_in of None \<Rightarrow> 24 | Some h \<Rightarrow> h) in
      case nonempty imageId_in of
        None \<Rightarrow> (ShareError 400 ''Image ID and filter name are required'', m)
      | Some img \<Rightarrow>
     (case nonempty filterName_in of
        None \<Rightarrow> (ShareError 400 ''Image ID and filter name are required'', m)
      | Some flt \<Rightarrow>
     (case find (\<lambda>file. startsWith file img \<and> includes_str file flt) processed of
        None \<Rightarrow> (ShareError 404 ''Processed image not found'', m)
      | Some file \<Rightarrow>
          (let expires = int now + expiresInHours * 60 * 60 * 1000 in
           if MAX_DATE < abs expires then (ShareError 500 ''Error creating shareable link'', m)
           else
             (ShareCreated uuid expires,
              m(uuid \<mapsto> \<lparr>imageId = img, filename = file, filterName = flt, userId = requester,
                           expiresAt = expires, shared_createdAt = int now\<rparr>))))))"

datatype shared_reply = SendFile string | SharedError nat string

text \<open>\<^verbatim>\<open>GET /api/shared/:token\<close>. \<open>processed\<close> lists the files that exist.\<close>

definition shared :: "string list \<Rightarrow> nat \<Rightarrow> string \<Rightarrow> sharedImages \<Rightarrow> shared_reply \<times> sharedImages" where
  "shared processed now tok m =
     (case m tok of
        None \<Rightarrow> (SharedError 404 ''Shared link not found or expired'', m)
      | Some sharedImage \<Rightarrow>
          if expiresAt sharedImage < int now then
            (SharedError 410 ''Shared link has expired'', m(tok := None))
          else if filename sharedImage \<in> set processed then (SendFile (filename sharedImage), m)
          else (SharedError 404 ''Image file not found'', m))"

subsection \<open>Named replies\<close>

text \<open>The reply of the membership rejection branch of the refresh handler.\<close>

definition NotRecognized :: response where
  "NotRecognized = json_message 403 ''Invalid refresh token''"

text \<open>The token is in the list of refresh tokens that the table holds for the user.\<close>

definition token_in_set :: "table \<Rightarrow> string \<Rightarrow> jwt \<Rightarrow> bool" where
  "token_in_set t name rt =
     (case map_of t name of
        None \<Rightarrow> False
      | Some u \<Rightarrow> (case refreshTokens u of None \<Rightarrow> False | Some ts \<Rightarrow> rt \<in> set ts))"

subsection \<open>Predicates on tables\<close>

text \<open>Every item is stored under its own \<open>username\<close>, as all writers of the table do.\<close>

definition well_keyed :: "table \<Rightarrow> bool" where
  "well_keyed t = list_all (\<lambda>(k, it). username it = k) t"

text \<open>The item that a scan evaluates first.\<close>

definition first_item :: "table \<Rightarrow> item option" where
  "first_item t = (case t of [] \<Rightarrow> None | (k, it) # rest \<Rightarrow> Some it)"

subsection \<open>Two refresh requests in one server process\<close>

text \<open>
  The handler gives up control at each \<^verbatim>\<open>await\<close>, so a second request may run between
  the membership check of a first request and its rotation. This is the schedule in which
  two requests A and B with the same body both run their first part before either runs
  its second part.
\<close>

definition two_refreshes_interleaved ::
  "nat \<Rightarrow> nat \<Rightarrow> jwt option \<Rightarrow> world \<Rightarrow> (response \<times> response) \<times> world" where
  "two_refreshes_interleaved nowA nowB body w =
     (case refresh_check nowA body w of (checkedA, w1) \<Rightarrow>
      case refresh_check nowB body w1 of (checkedB, w2) \<Rightarrow>
      case (case checkedA of Inl resp \<Rightarrow> (resp, w2) | Inr ctx \<Rightarrow> refresh_rotate nowA ctx w2) of
        (respA, w3) \<Rightarrow>
      case (case checkedB of Inl resp \<Rightarrow> (resp, w3) | Inr ctx \<Rightarrow> refresh_rotate nowB ctx w3) of
        (respB, w4) \<Rightarrow> ((respA, respB), w4))"

subsection \<open>Example data\<close>

text \<open>A registered user, a refresh token issued to her at second 5, and three tables.\<close>

definition alice :: item where
  "alice =
     \<lparr>username = ''alice'', user_id = Some ''alice'', password = Some ''$2a$10$hash'',
      email = Some [], createdAt = Some 1000, refreshTokens = Some [],
      emailVerified = Some False, emailVerificationToken = Some ''uuid-1''\<rparr>"

definition alice_refresh :: jwt where
  "alice_refresh =
     jwt_sign (Some ''alice'') ''alice'' (Some ''refresh'') JWT_SECRET REFRESH_TOKEN_EXPIRES_IN 5000"

definition alice_access :: jwt where
  "alice_access = jwt_sign (Some ''alice'') ''alice'' None JWT_SECRET JWT_EXPIRES_IN 5000"

definition world_registered :: world where
  "world_registered = \<lparr>table = [(''alice'', alice)], faults = []\<rparr>"

definition world_logged_in :: world where
  "world_logged_in =
     \<lparr>table = [(''alice'', alice\<lparr>refreshTokens := Some [alice_refresh]\<rparr>)], faults = []\<rparr>"

text \<open>The table after alice has followed her verification link at 7000 ms.\<close>

definition alice_verified :: item where
  "alice_verified =
     alice\<lparr>emailVerified := Some True, emailVerificationToken := None,
           refreshTokens := Some [jwt_sign (Some ''alice'') ''alice'' (Some ''refresh'') JWT_SECRET
                                    REFRESH_TOKEN_EXPIRES_IN 7000]\<rparr>"

definition world_verified :: world where
  "world_verified = \<lparr>table = [(''alice'', alice_verified)], faults = []\<rparr>"

text \<open>A share link for one processed image, created at 1000 ms with zero hours to live.\<close>

definition shares_example :: "share_reply \<times> sharedImages" where
  "shares_example =
     share [''img1-sepia.png''] ''share-1'' 1000 (Some ''alice'') (Some ''img1'') (Some ''sepia'')
       (Some 0) Map.empty"

text \<open>A second registration, of bob, with the email address and the mailer left open.\<close>

definition register_bob :: "string option \<Rightarrow> exn + unit \<Rightarrow> response \<times> world" where
  "register_bob email_in mailer =
     register ''$2a$10$bobhash'' ''uuid-2'' mailer 2000 (Some ''bob'') (Some ''Secret123!'') email_in
       world_registered"

text \<open>The header \<^verbatim>\<open>Authorization: Bearer <token>\<close>.\<close>

definition bearer_header :: "jwt \<Rightarrow> jwt list option" where
  "bearer_header t = Some [Malformed ''Bearer'', t]"

lemmas example_defs =
  alice_def alice_refresh_def alice_access_def world_registered_def world_logged_in_def
  alice_verified_def world_verified_def

section \<open>Properties\<close>

subsection \<open>The store\<close>

lemmas store_defs =
  send_def GetCommand_def UpdateCommand_def PutCommand_def ScanCommand_def blank_item_def
  getUserByUsername_def createUser_def updateUser_def addRefreshToken_def
  removeRefreshToken_def clearRefreshTokens_def hasRefreshToken_def
  getUserByVerificationToken_def

lemmas codec_defs =
  jwt_sign_def jwt_verify_def JWT_SECRET_def JWT_EXPIRES_IN_def REFRESH_TOKEN_EXPIRES_IN_def
  falsy_jwt_def truthy_jwt_def truthy_def nonempty_def or_else_def

lemmas refresh_defs =
  refresh_def refresh_check_def refresh_rotate_def json_message_def user_summary_def
  NotRecognized_def

lemma map_of_put_item: "map_of (put_item k v t) = (map_of t)(k \<mapsto> v)"
  by (induction t) (auto simp: fun_eq_iff)

lemma send_table: "send w = (ok, w') \<Longrightarrow> table w' = table w"
  by (auto simp: send_def split: list.splits)

lemma send_no_faults: "faults w = [] \<Longrightarrow> send w = (True, w)"
  by (simp add: send_def)

lemma send_faults_Cons: "faults w = f # fs \<Longrightarrow> send w = (\<not> f, w\<lparr>faults := fs\<rparr>)"
  by (simp add: send_def)

lemma getUserByUsername_cases:
  assumes "getUserByUsername name w = (r, w')"
  shows "table w' = table w" and "r = Inl StoreError \<or> r = Inr (map_of (table w) name)"
  using assms send_table[of w]
  by (auto simp: getUserByUsername_def GetCommand_def split: prod.splits if_splits)

lemma getUserByUsername_no_faults:
  "faults w = [] \<Longrightarrow> getUserByUsername name w = (Inr (map_of (table w) name), w)"
  by (simp add: getUserByUsername_def GetCommand_def send_no_faults)

lemma hasRefreshToken_table: "hasRefreshToken name rt w = (b, w') \<Longrightarrow> table w' = table w"
  by (auto simp: hasRefreshToken_def split: prod.splits sum.splits option.splits dest: getUserByUsername_cases(1))

lemma hasRefreshToken_True:
  assumes "hasRefreshToken name rt w = (True, w')"
  shows "\<exists>u ts. map_of (table w) name = Some u \<and> refreshTokens u = Some ts \<and> rt \<in> set ts"
proof -
  obtain r w1 where g: "getUserByUsername name w = (r, w1)" by fastforce
  from getUserByUsername_cases(2)[OF g] assms g show ?thesis
    by (auto simp: hasRefreshToken_def split: option.splits)
qed

lemma hasRefreshToken_no_faults:
  "faults w = [] \<Longrightarrow> hasRefreshToken name rt w =
     ((case map_of (table w) name of None \<Rightarrow> False
       | Some u \<Rightarrow> (case refreshTokens u of None \<Rightarrow> False | Some ts \<Rightarrow> rt \<in> set ts)), w)"
  by (simp add: hasRefreshToken_def getUserByUsername_no_faults split: option.splits)

lemma truthy_jwt_Some: "truthy_jwt body = Some rt \<Longrightarrow> body = Some rt"
  by (auto simp: truthy_jwt_def split: if_splits)

lemma refresh_check_Inr:
  assumes "refresh_check now body w = (Inr (rt, decoded, u), w')"
  shows "body = Some rt \<and> jwt_verify rt JWT_SECRET now = Inr decoded \<and> p_type decoded = Some ''refresh'' \<and>
    map_of (table w) (p_username decoded) = Some u \<and>
    (\<exists>ts. refreshTokens u = Some ts \<and> rt \<in> set ts) \<and>
    table w' = table w"
proof -
  from assms obtain w1 where b: "body = Some rt" and v: "jwt_verify rt JWT_SECRET now = Inr decoded"
    and ty: "p_type decoded = Some ''refresh''"
    and g: "getUserByUsername (p_username decoded) w = (Inr (Some u), w1)"
    and h: "hasRefreshToken (p_username decoded) rt w1 = (True, w')"
    by (auto simp: refresh_check_def split: option.splits sum.splits if_splits prod.splits bool.splits
        dest: truthy_jwt_Some)
  from getUserByUsername_cases[OF g] have t1: "table w1 = table w"
    and m: "map_of (table w) (p_username decoded) = Some u" by auto
  from hasRefreshToken_True[OF h] hasRefreshToken_table[OF h] t1 m b v ty show ?thesis by auto
qed

lemma refresh_check_Inl:
  assumes "refresh_check now body w = (Inl resp, w')"
  shows "table w' = table w \<and> (status resp = 400 \<or> status resp = 403)"
proof -
  have st: "status resp = 400 \<or> status resp = 403"
    using assms
    by (auto simp: refresh_check_def json_message_def
        split: option.splits sum.splits if_splits prod.splits bool.splits)
  have "table w' = table w"
  proof (cases "\<exists>rt decoded. truthy_jwt body = Some rt \<and> jwt_verify rt JWT_SECRET now = Inr decoded \<and> p_type decoded = Some ''refresh''")
    case False
    with assms show ?thesis
      by (auto simp: refresh_check_def split: option.splits sum.splits if_splits)
  next
    case True
    then obtain rt decoded where c: "truthy_jwt body = Some rt" "jwt_verify rt JWT_SECRET now = Inr decoded"
      "p_type decoded = Some ''refresh''" by blast
    obtain r w1 where g: "getUserByUsername (p_username decoded) w = (r, w1)" by fastforce
    obtain b w2 where h: "hasRefreshToken (p_username decoded) rt w1 = (b, w2)" by fastforce
    from getUserByUsername_cases(1)[OF g] hasRefreshToken_table[OF h]
    have "table w1 = table w" "table w2 = table w" by simp_all
    with assms c g h show ?thesis
      by (auto simp: refresh_check_def split: option.splits sum.splits if_splits bool.splits)
  qed
  with st show ?thesis by simp
qed



lemma jwt_verify_truthy:
  "jwt_verify rt secret now = Inr decoded \<Longrightarrow> truthy_jwt (Some rt) = Some rt"
  by (auto simp: truthy_jwt_def falsy_jwt_def jwt_verify_def split: jwt.splits)

subsection \<open>Refresh\<close>

lemma refresh_status_200:
  assumes "status (fst (refresh now body w)) = 200"
  shows "\<exists>rt decoded. body = Some rt \<and> jwt_verify rt JWT_SECRET now = Inr decoded \<and>
           p_type decoded = Some ''refresh'' \<and> token_in_set (table w) (p_username decoded) rt"
proof -
  obtain c w1 where rc: "refresh_check now body w = (c, w1)" by fastforce
  show ?thesis
  proof (cases c)
    case (Inl resp)
    with rc refresh_check_Inl[of now body w resp w1] assms show ?thesis
      by (auto simp: refresh_def)
  next
    case (Inr ctx)
    obtain rt decoded u where ctx: "ctx = (rt, decoded, u)" by (cases ctx) auto
    from refresh_check_Inr[of now body w rt decoded u w1] rc Inr ctx show ?thesis
      by (auto simp: token_in_set_def)
  qed
qed

lemma refresh_absent_no_faults:
  assumes "jwt_verify rt JWT_SECRET now = Inr decoded" "p_type decoded = Some ''refresh''"
    "\<not> token_in_set (table w) (p_username decoded) rt" "faults w = []"
  shows "refresh now (Some rt) w = (NotRecognized, w)"
  using assms
  by (auto simp: refresh_def refresh_check_def jwt_verify_truthy getUserByUsername_no_faults
      hasRefreshToken_no_faults token_in_set_def NotRecognized_def split: option.splits)

lemma hasRefreshToken_fault:
  "hasRefreshToken name rt (w\<lparr>faults := True # fs\<rparr>) = (False, w\<lparr>faults := fs\<rparr>)"
  by (simp add: store_defs)

lemma refresh_membership_fault:
  assumes "jwt_verify rt JWT_SECRET now = Inr decoded" "p_type decoded = Some ''refresh''"
    "map_of (table w) (p_username decoded) = Some u" "faults w = False # True # fs"
  shows "refresh now (Some rt) w = (NotRecognized, w\<lparr>faults := fs\<rparr>)"
  using assms
  by (simp add: refresh_def refresh_check_def jwt_verify_truthy store_defs NotRecognized_def)

lemma refresh_check_Inl_message:
  assumes "refresh_check now body w = (Inl resp, w')"
  shows "resp = json_message (status resp) (message resp)"
  using assms
  by (auto simp: refresh_check_def json_message_def
      split: option.splits sum.splits if_splits prod.splits bool.splits)

lemma refresh_check_400:
  assumes "refresh_check now body w = (Inl resp, w')" "status resp = 400"
  shows "truthy_jwt body = None"
  using assms
  by (auto simp: refresh_check_def json_message_def
      split: option.splits sum.splits if_splits prod.splits bool.splits)

lemma refresh_absent:
  assumes v: "jwt_verify rt JWT_SECRET now = Inr decoded"
    and a: "\<not> token_in_set (table w) (p_username decoded) rt"
  shows "status (fst (refresh now (Some rt) w)) = 403 \<and>
         body_token (fst (refresh now (Some rt) w)) = None \<and>
         body_refreshToken (fst (refresh now (Some rt) w)) = None \<and>
         table (snd (refresh now (Some rt) w)) = table w"
proof -
  obtain c w1 where rc: "refresh_check now (Some rt) w = (c, w1)" by fastforce
  show ?thesis
  proof (cases c)
    case (Inl resp)
    from rc Inl have r: "refresh now (Some rt) w = (resp, w1)" by (simp add: refresh_def)
    from rc Inl refresh_check_Inl[of now "Some rt" w resp w1]
    have t: "table w1 = table w" and st: "status resp = 400 \<or> status resp = 403" by auto
    from refresh_check_400[of now "Some rt" w resp w1] rc Inl jwt_verify_truthy[OF v] st
    have "status resp = 403" by auto
    moreover from refresh_check_Inl_message[of now "Some rt" w resp w1] rc Inl
    have "body_token resp = None \<and> body_refreshToken resp = None"
      by (metis json_message_def response.select_convs(3) response.select_convs(4))
    ultimately show ?thesis using r t by simp
  next
    case (Inr ctx)
    obtain rt' decoded' u where ctx: "ctx = (rt', decoded', u)" by (cases ctx) auto
    from refresh_check_Inr[of now "Some rt" w rt' decoded' u w1] rc Inr ctx v a show ?thesis
      by (auto simp: token_in_set_def)
  qed
qed

text \<open>
  Claim C7. The refresh handler answers 200 only if the presented token passes the
  signature and expiry check, is of kind \<^verbatim>\<open>refresh\<close>, and is in the list of refresh tokens
  that the table holds for the user named in the token. A token that passes the check
  but is not in that list is rejected with status 403, no token is issued and the table
  stays as it is; while the store answers, the reply is the one of the membership
  rejection branch (\<open>NotRecognized\<close>).
\<close>

theorem refresh_requires_signature_and_membership:
  "(status (fst (refresh now body w)) = 200 \<longrightarrow>
      (\<exists>rt decoded. body = Some rt \<and> jwt_verify rt JWT_SECRET now = Inr decoded \<and>
         p_type decoded = Some ''refresh'' \<and> token_in_set (table w) (p_username decoded) rt)) \<and>
   (jwt_verify rt' JWT_SECRET now = Inr decoded' \<and> p_type decoded' = Some ''refresh'' \<and>
    \<not> token_in_set (table w) (p_username decoded') rt' \<longrightarrow>
      status (fst (refresh now (Some rt') w)) = 403 \<and>
      body_token (fst (refresh now (Some rt') w)) = None \<and>
      body_refreshToken (fst (refresh now (Some rt') w)) = None \<and>
      table (snd (refresh now (Some rt') w)) = table w \<and>
      (faults w = [] \<longrightarrow> refresh now (Some rt') w = (NotRecognized, w)))"
  using refresh_status_200[of now body w] refresh_absent[of rt' now decoded' w]
    refresh_absent_no_faults[of rt' now decoded' w]
  by blast

theorem refresh_requires_signature_and_membership_witness:
  "status (fst (refresh 9000 (Some alice_refresh) world_logged_in)) = 200 \<and>
   token_in_set (table world_logged_in) ''alice'' alice_refresh \<and>
   jwt_verify alice_refresh JWT_SECRET 9000 =
     Inr \<lparr>p_id = Some ''alice'', p_username = ''alice'', p_type = Some ''refresh'',
          p_iat = 5, p_exp = 604805\<rparr> \<and>
   \<not> token_in_set (table world_registered) ''alice'' alice_refresh \<and>
   faults world_registered = [] \<and>
   refresh 9000 (Some alice_refresh) world_registered = (NotRecognized, world_registered)"
proof -
  have s: "status (fst (refresh 9000 (Some alice_refresh) world_logged_in)) = 200"
    by (simp add: example_defs refresh_defs codec_defs store_defs Let_def)
  have v: "jwt_verify alice_refresh JWT_SECRET 9000 =
     Inr \<lparr>p_id = Some ''alice'', p_username = ''alice'', p_type = Some ''refresh'',
          p_iat = 5, p_exp = 604805\<rparr>"
    by (simp add: example_defs codec_defs)
  have a: "\<not> token_in_set (table world_registered) ''alice'' alice_refresh"
    by (simp add: example_defs token_in_set_def)
  have f: "faults world_registered = []" by (simp add: example_defs)
  from refresh_requires_signature_and_membership[of 9000 "Some alice_refresh" world_logged_in
      alice_refresh "\<lparr>p_id = Some ''alice'', p_username = ''alice'', p_type = Some ''refresh'',
          p_iat = 5, p_exp = 604805\<rparr>"] s v
  have m: "token_in_set (table world_logged_in) ''alice'' alice_refresh" by auto
  from refresh_requires_signature_and_membership[of 9000 "Some alice_refresh" world_registered
      alice_refresh "\<lparr>p_id = Some ''alice'', p_username = ''alice'', p_type = Some ''refresh'',
          p_iat = 5, p_exp = 604805\<rparr>"] v a f
  have r: "refresh 9000 (Some alice_refresh) world_registered = (NotRecognized, world_registered)"
    by simp
  from s m v a f r show ?thesis by blast
qed


text \<open>
  Claim C10. The membership check of the refresh handler fails closed. When the lookup
  inside \<open>hasRefreshToken\<close> throws, the check answers \<^verbatim>\<open>false\<close> and the error goes no
  further. A refresh request whose own lookup of the user succeeded and whose membership
  lookup threw is answered with the reply of the membership rejection branch, the same
  reply that a token missing from the list receives, and the table is left as it was.
\<close>

theorem refresh_membership_check_fails_closed:
  "hasRefreshToken name rt' (wa\<lparr>faults := True # fs\<rparr>) = (False, wa\<lparr>faults := fs\<rparr>) \<and>
   (jwt_verify rt JWT_SECRET now = Inr decoded \<and> p_type decoded = Some ''refresh'' \<and>
    map_of (table w) (p_username decoded) = Some u \<and> faults w = False # True # fs \<longrightarrow>
      refresh now (Some rt) w = (NotRecognized, w\<lparr>faults := fs\<rparr>) \<and>
      table (snd (refresh now (Some rt) w)) = table w \<and>
      (\<forall>revoked. \<not> token_in_set revoked (p_username decoded) rt \<longrightarrow>
         fst (refresh now (Some rt) \<lparr>table = revoked, faults = []\<rparr>) = fst (refresh now (Some rt) w)))"
proof -
  have "refresh now (Some rt) \<lparr>table = revoked, faults = []\<rparr> = (NotRecognized, \<lparr>table = revoked, faults = []\<rparr>)"
    if "jwt_verify rt JWT_SECRET now = Inr decoded" "p_type decoded = Some ''refresh''"
      "\<not> token_in_set revoked (p_username decoded) rt" for revoked
    using that refresh_absent_no_faults[of rt now decoded "\<lparr>table = revoked, faults = []\<rparr>"] by simp
  then show ?thesis
    using hasRefreshToken_fault[where name=name and rt=rt' and w=wa and fs=fs] refresh_membership_fault[where rt=rt and now=now and decoded=decoded and w=w and u=u and fs=fs]
    by auto
qed

theorem refresh_membership_check_fails_closed_witness:
  "jwt_verify alice_refresh JWT_SECRET 9000 =
     Inr \<lparr>p_id = Some ''alice'', p_username = ''alice'', p_type = Some ''refresh'',
          p_iat = 5, p_exp = 604805\<rparr> \<and>
   token_in_set (table world_logged_in) ''alice'' alice_refresh \<and>
   refresh 9000 (Some alice_refresh) (world_logged_in\<lparr>faults := [False, True]\<rparr>) =
     (NotRecognized, world_logged_in) \<and>
   fst (refresh 9000 (Some alice_refresh) world_registered) = NotRecognized"
proof -
  let ?p = "\<lparr>p_id = Some ''alice'', p_username = ''alice'', p_type = Some ''refresh'',
          p_iat = 5, p_exp = 604805\<rparr>"
  have v: "jwt_verify alice_refresh JWT_SECRET 9000 = Inr ?p"
    by (simp add: example_defs codec_defs)
  have m: "token_in_set (table world_logged_in) ''alice'' alice_refresh"
    by (simp add: example_defs token_in_set_def)
  have u: "map_of (table (world_logged_in\<lparr>faults := [False, True]\<rparr>)) (p_username ?p) =
             Some (alice\<lparr>refreshTokens := Some [alice_refresh]\<rparr>)"
    by (simp add: world_logged_in_def)
  have a: "\<not> token_in_set (table world_registered) (p_username ?p) alice_refresh"
    by (simp add: example_defs token_in_set_def)
  have w: "world_logged_in\<lparr>faults := []\<rparr> = world_logged_in"
    "\<lparr>table = table world_registered, faults = []\<rparr> = world_registered"
    by (simp_all add: world_logged_in_def world_registered_def)
  from refresh_membership_check_fails_closed[where name="''alice''" and rt'=alice_refresh
      and wa=world_logged_in and fs="[]" and rt=alice_refresh and now=9000 and decoded="?p"
      and w="world_logged_in\<lparr>faults := [False, True]\<rparr>"
      and u="alice\<lparr>refreshTokens := Some [alice_refresh]\<rparr>"] v u a w
  have "refresh 9000 (Some alice_refresh) (world_logged_in\<lparr>faults := [False, True]\<rparr>) =
     (NotRecognized, world_logged_in) \<and>
     fst (refresh 9000 (Some alice_refresh) world_registered) = NotRecognized"
    by (simp; metis fst_conv)
  with v m show ?thesis by blast
qed


subsection \<open>The unified authenticator\<close>

lemma authenticateToken_missing:
  "truthy_jwt (bearer authHeader) = None \<Longrightarrow>
   authenticateToken cognito authHeader now = Reject (json_message 401 ''Access token required'')"
  by (simp add: authenticateToken_def)

lemma authenticateToken_fall_through:
  assumes "truthy_jwt (bearer authHeader) = Some t" "verifyToken module t now = Inl e"
  shows "authenticateToken (Some module) authHeader now = authenticateToken None authHeader now"
  using assms by (simp add: authenticateToken_def)

lemma authenticateToken_local:
  assumes "truthy_jwt (bearer authHeader) = Some t"
  shows "authenticateToken None authHeader now =
     (case jwt_verify t JWT_SECRET now of
        Inl err \<Rightarrow> Reject (json_message (if err = TokenExpiredError then 401 else 403)
                     (if err = TokenExpiredError then ''Token expired'' else ''Invalid or expired token''))
      | Inr decoded \<Rightarrow> Next (LegacyUser decoded))"
  using assms by (simp add: authenticateToken_def)

text \<open>
  Claim C2. With the external verifier configured, a bearer token whose external
  verification fails, for whatever reason, is decided by the local codec alone: the
  error is dropped, and the result is the one of \<open>jwt_verify\<close>, that is the local
  principal when the token verifies, 401 \<^verbatim>\<open>Token expired\<close> when it has expired and 403
  when its signature does not verify. This is what the authenticator does when no
  external verifier is configured. A request without a token is rejected with 401
  \<^verbatim>\<open>Access token required\<close>.
\<close>

theorem external_failure_falls_through_to_local_codec:
  "(truthy_jwt (bearer authHeader) = None \<longrightarrow>
      authenticateToken cognito authHeader now = Reject (json_message 401 ''Access token required'')) \<and>
   (truthy_jwt (bearer authHeader) = Some t \<and> verifyToken module t now = Inl e \<longrightarrow>
      authenticateToken (Some module) authHeader now =
        (case jwt_verify t JWT_SECRET now of
           Inl err \<Rightarrow>
             Reject (json_message (if err = TokenExpiredError then 401 else 403)
                       (if err = TokenExpiredError then ''Token expired''
                        else ''Invalid or expired token''))
         | Inr decoded \<Rightarrow> Next (LegacyUser decoded)) \<and>
      authenticateToken (Some module) authHeader now = authenticateToken None authHeader now \<and>
      (\<forall>decoded. jwt_verify t JWT_SECRET now = Inr decoded \<longrightarrow>
         authenticateToken (Some module) authHeader now = Next (LegacyUser decoded)))"
  using authenticateToken_missing[of authHeader cognito now]
    authenticateToken_fall_through[of authHeader t module now e]
    authenticateToken_local[of authHeader t now]
  by auto

theorem external_failure_falls_through_to_local_codec_witness:
  "truthy_jwt (bearer (Some [Malformed ''Bearer''])) = None \<and>
   authenticateToken (Some None) (Some [Malformed ''Bearer'']) 6000 =
     Reject (json_message 401 ''Access token required'') \<and>
   truthy_jwt (bearer (bearer_header alice_access)) = Some alice_access \<and>
   verifyToken (Some (\<lambda>t now. Inl (CognitoError ''Invalid issuer''))) alice_access 6000 =
     Inl (CognitoError ''Invalid issuer'') \<and>
   jwt_verify alice_access JWT_SECRET 6000 =
     Inr \<lparr>p_id = Some ''alice'', p_username = ''alice'', p_type = None, p_iat = 5, p_exp = 86405\<rparr> \<and>
   authenticateToken (Some (Some (\<lambda>t now. Inl (CognitoError ''Invalid issuer''))))
       (bearer_header alice_access) 6000 =
     Next (LegacyUser \<lparr>p_id = Some ''alice'', p_username = ''alice'', p_type = None,
                        p_iat = 5, p_exp = 86405\<rparr>) \<and>
   verifyToken (Some (\<lambda>t now. Inl (CognitoError ''Invalid issuer''))) alice_access 90000000 =
     Inl (CognitoError ''Invalid issuer'') \<and>
   jwt_verify alice_access JWT_SECRET 90000000 = Inl TokenExpiredError \<and>
   authenticateToken (Some (Some (\<lambda>t now. Inl (CognitoError ''Invalid issuer''))))
       (bearer_header alice_access) 90000000 =
     Reject (json_message 401 ''Token expired'') \<and>
   truthy_jwt (bearer (bearer_header (Signed \<lparr>p_id = Some ''alice'', p_username = ''alice'',
       p_type = None, p_iat = 5, p_exp = 86405\<rparr> ''forged''))) =
     Some (Signed \<lparr>p_id = Some ''alice'', p_username = ''alice'',
       p_type = None, p_iat = 5, p_exp = 86405\<rparr> ''forged'') \<and>
   jwt_verify (Signed \<lparr>p_id = Some ''alice'', p_username = ''alice'',
       p_type = None, p_iat = 5, p_exp = 86405\<rparr> ''forged'') JWT_SECRET 6000 = Inl JsonWebTokenError \<and>
   authenticateToken (Some None)
       (bearer_header (Signed \<lparr>p_id = Some ''alice'', p_username = ''alice'',
          p_type = None, p_iat = 5, p_exp = 86405\<rparr> ''forged'')) 6000 =
     Reject (json_message 403 ''Invalid or expired token'')"
proof -
  let ?m = "Some (\<lambda>t now. Inl (CognitoError ''Invalid issuer''))"
  let ?p = "\<lparr>p_id = Some ''alice'', p_username = ''alice'', p_type = None,
                        p_iat = 5, p_exp = 86405\<rparr>"
  let ?f = "Signed ?p ''forged''"
  have n: "truthy_jwt (bearer (Some [Malformed ''Bearer''])) = None"
    by (simp add: bearer_def codec_defs)
  have b: "truthy_jwt (bearer (bearer_header alice_access)) = Some alice_access"
    by (simp add: bearer_def bearer_header_def codec_defs example_defs)
  have bf: "truthy_jwt (bearer (bearer_header ?f)) = Some ?f"
    by (simp add: bearer_def bearer_header_def codec_defs)
  have c: "verifyToken ?m alice_access 6000 = Inl (CognitoError ''Invalid issuer'')"
    "verifyToken ?m alice_access 90000000 = Inl (CognitoError ''Invalid issuer'')"
    by (simp_all add: verifyToken_def)
  have cn: "verifyToken None ?f 6000 =
      Inl (CognitoError ''JWT verifier not initialized. Check COGNITO_USER_POOL_ID configuration.'')"
    by (simp add: verifyToken_def)
  have v: "jwt_verify alice_access JWT_SECRET 6000 = Inr ?p"
    by (simp add: codec_defs example_defs)
  have vx: "jwt_verify alice_access JWT_SECRET 90000000 = Inl TokenExpiredError"
    by (simp add: codec_defs example_defs)
  have vf: "jwt_verify ?f JWT_SECRET 6000 = Inl JsonWebTokenError"
    by (simp add: codec_defs)
  from external_failure_falls_through_to_local_codec[of "Some [Malformed ''Bearer'']" "Some None" 6000] n
  have 1: "authenticateToken (Some None) (Some [Malformed ''Bearer'']) 6000 =
     Reject (json_message 401 ''Access token required'')" by simp
  from external_failure_falls_through_to_local_codec[of "bearer_header alice_access" "Some None" 6000
      alice_access ?m "CognitoError ''Invalid issuer''"] b c(1)
  have "authenticateToken (Some ?m) (bearer_header alice_access) 6000 =
        (case jwt_verify alice_access JWT_SECRET 6000 of
           Inl err \<Rightarrow>
             Reject (json_message (if err = TokenExpiredError then 401 else 403)
                       (if err = TokenExpiredError then ''Token expired''
                        else ''Invalid or expired token''))
         | Inr decoded \<Rightarrow> Next (LegacyUser decoded))" by blast
  with v have 2: "authenticateToken (Some ?m) (bearer_header alice_access) 6000 = Next (LegacyUser ?p)"
    by simp
  from external_failure_falls_through_to_local_codec[of "bearer_header alice_access" "Some None" 90000000
      alice_access ?m "CognitoError ''Invalid issuer''"] b c(2)
  have "authenticateToken (Some ?m) (bearer_header alice_access) 90000000 =
        (case jwt_verify alice_access JWT_SECRET 90000000 of
           Inl err \<Rightarrow>
             Reject (json_message (if err = TokenExpiredError then 401 else 403)
                       (if err = TokenExpiredError then ''Token expired''
                        else ''Invalid or expired token''))
         | Inr decoded \<Rightarrow> Next (LegacyUser decoded))" by blast
  with vx have 3: "authenticateToken (Some ?m) (bearer_header alice_access) 90000000 =
     Reject (json_message 401 ''Token expired'')" by simp
  from external_failure_falls_through_to_local_codec[of "bearer_header ?f" "Some None" 6000 ?f None
      "CognitoError ''JWT verifier not initialized. Check COGNITO_USER_POOL_ID configuration.''"] bf cn
  have "authenticateToken (Some None) (bearer_header ?f) 6000 =
        (case jwt_verify ?f JWT_SECRET 6000 of
           Inl err \<Rightarrow>
             Reject (json_message (if err = TokenExpiredError then 401 else 403)
                       (if err = TokenExpiredError then ''Token expired''
                        else ''Invalid or expired token''))
         | Inr decoded \<Rightarrow> Next (LegacyUser decoded))" by blast
  with vf have 4: "authenticateToken (Some None) (bearer_header ?f) 6000 =
     Reject (json_message 403 ''Invalid or expired token'')" by simp
  from n 1 b c v 2 vx 3 bf vf 4 show ?thesis by blast
qed

text \<open>
  Claim C3, as stated: an expired token maps to 401 at every endpoint, so a refresh
  request presenting an expired refresh token yields 401. The refresh handler answers 403.
\<close>

theorem refresh_expired_token_counterexample:
  "jwt_verify alice_refresh JWT_SECRET 700000000 = Inl TokenExpiredError \<and>
   status (fst (refresh 700000000 (Some alice_refresh) world_logged_in)) = 403 \<and>
   status (fst (refresh 700000000 (Some alice_refresh) world_logged_in)) \<noteq> 401"
  by (simp add: example_defs refresh_defs codec_defs)

lemma refresh_verify_failure:
  assumes "truthy_jwt body = Some rt" "jwt_verify rt JWT_SECRET now = Inl err"
  shows "refresh now body w = (json_message 403 ''Invalid or expired refresh token'', w)"
  using assms by (simp add: refresh_def refresh_check_def)

text \<open>
  Claim C3, amended. In the unified authenticator a local verification failure of kind
  Expired maps to 401 and one of kind Invalid to 403. The refresh endpoint maps every
  verification failure of the presented refresh token, Expired included, to 403; and it
  answers 403, with no token issued, to a verified refresh token that is not in the
  user's stored list (the reply \<open>NotRecognized\<close> while the store answers).
\<close>

theorem token_failure_status_codes:
  "(truthy_jwt (bearer authHeader) = Some t \<and> jwt_verify t JWT_SECRET now = Inl err \<and>
    (case cognito of None \<Rightarrow> True | Some module \<Rightarrow> (case verifyToken module t now of Inl e \<Rightarrow> True | Inr p \<Rightarrow> False)) \<longrightarrow>
      authenticateToken cognito authHeader now =
        Reject (json_message (if err = TokenExpiredError then 401 else 403)
                  (if err = TokenExpiredError then ''Token expired'' else ''Invalid or expired token''))) \<and>
   (truthy_jwt body = Some rt \<and> jwt_verify rt JWT_SECRET now = Inl err' \<longrightarrow>
      refresh now body w = (json_message 403 ''Invalid or expired refresh token'', w)) \<and>
   (jwt_verify rt' JWT_SECRET now = Inr decoded' \<and> p_type decoded' = Some ''refresh'' \<and>
    \<not> token_in_set (table w) (p_username decoded') rt' \<longrightarrow>
      status (fst (refresh now (Some rt') w)) = 403 \<and>
      body_token (fst (refresh now (Some rt') w)) = None \<and>
      body_refreshToken (fst (refresh now (Some rt') w)) = None \<and>
      (faults w = [] \<longrightarrow> refresh now (Some rt') w = (NotRecognized, w)))"
proof -
  have 1: "authenticateToken cognito authHeader now =
        Reject (json_message (if err = TokenExpiredError then 401 else 403)
                  (if err = TokenExpiredError then ''Token expired'' else ''Invalid or expired token''))"
    if "truthy_jwt (bearer authHeader) = Some t \<and> jwt_verify t JWT_SECRET now = Inl err \<and>
    (case cognito of None \<Rightarrow> True | Some module \<Rightarrow> (case verifyToken module t now of Inl e \<Rightarrow> True | Inr p \<Rightarrow> False))"
    using that by (auto simp: authenticateToken_def split: option.splits sum.splits)
  from 1 refresh_verify_failure[of body rt now err' w] refresh_absent[of rt' now decoded' w]
    refresh_absent_no_faults[of rt' now decoded' w]
  show ?thesis by blast
qed

theorem token_failure_status_codes_witness:
  "truthy_jwt (bearer (bearer_header alice_access)) = Some alice_access \<and>
   jwt_verify alice_access JWT_SECRET 90000000 = Inl TokenExpiredError \<and>
   authenticateToken None (bearer_header alice_access) 90000000 =
     Reject (json_message 401 ''Token expired'') \<and>
   jwt_verify (Malformed ''invalid-token'') JWT_SECRET 6000 = Inl JsonWebTokenError \<and>
   authenticateToken None (bearer_header (Malformed ''invalid-token'')) 6000 =
     Reject (json_message 403 ''Invalid or expired token'') \<and>
   jwt_verify alice_refresh JWT_SECRET 700000000 = Inl TokenExpiredError \<and>
   refresh 700000000 (Some alice_refresh) world_logged_in =
     (json_message 403 ''Invalid or expired refresh token'', world_logged_in) \<and>
   jwt_verify alice_refresh JWT_SECRET 9000 =
     Inr \<lparr>p_id = Some ''alice'', p_username = ''alice'', p_type = Some ''refresh'',
          p_iat = 5, p_exp = 604805\<rparr> \<and>
   \<not> token_in_set (table world_registered) ''alice'' alice_refresh \<and>
   status (fst (refresh 9000 (Some alice_refresh) world_registered)) = 403 \<and>
   refresh 9000 (Some alice_refresh) world_registered = (NotRecognized, world_registered)"
proof -
  let ?r = "\<lparr>p_id = Some ''alice'', p_username = ''alice'', p_type = Some ''refresh'',
          p_iat = 5, p_exp = 604805\<rparr>"
  have b: "truthy_jwt (bearer (bearer_header alice_access)) = Some alice_access"
    by (simp add: bearer_def bearer_header_def codec_defs example_defs)
  have v: "jwt_verify alice_access JWT_SECRET 90000000 = Inl TokenExpiredError"
    by (simp add: codec_defs example_defs)
  have b2: "truthy_jwt (bearer (bearer_header (Malformed ''invalid-token''))) = Some (Malformed ''invalid-token'')"
    by (simp add: bearer_def bearer_header_def codec_defs)
  have v2: "jwt_verify (Malformed ''invalid-token'') JWT_SECRET 6000 = Inl JsonWebTokenError"
    by (simp add: codec_defs)
  have b3: "truthy_jwt (Some alice_refresh) = Some alice_refresh"
    by (simp add: codec_defs example_defs)
  have v3: "jwt_verify alice_refresh JWT_SECRET 700000000 = Inl TokenExpiredError"
    by (simp add: codec_defs example_defs)
  have v4: "jwt_verify alice_refresh JWT_SECRET 9000 = Inr ?r"
    by (simp add: codec_defs example_defs)
  have a4: "\<not> token_in_set (table world_registered) (p_username ?r) alice_refresh"
    by (simp add: example_defs token_in_set_def)
  have f4: "faults world_registered = []" by (simp add: world_registered_def)
  from token_failure_status_codes[where authHeader="bearer_header alice_access" and t=alice_access and now=90000000
      and err=TokenExpiredError and cognito=None] b v
  have 1: "authenticateToken None (bearer_header alice_access) 90000000 =
     Reject (json_message 401 ''Token expired'')" by simp
  from token_failure_status_codes[where authHeader="bearer_header (Malformed ''invalid-token'')"
      and t="Malformed ''invalid-token''" and now=6000 and err=JsonWebTokenError and cognito=None] b2 v2
  have 2: "authenticateToken None (bearer_header (Malformed ''invalid-token'')) 6000 =
     Reject (json_message 403 ''Invalid or expired token'')" by simp
  from token_failure_status_codes[where now=700000000 and body="Some alice_refresh" and rt=alice_refresh
      and err'=TokenExpiredError and w=world_logged_in] b3 v3
  have 3: "refresh 700000000 (Some alice_refresh) world_logged_in =
     (json_message 403 ''Invalid or expired refresh token'', world_logged_in)" by simp
  have t4: "p_type ?r = Some ''refresh''" by simp
  from token_failure_status_codes[where now=9000 and rt'=alice_refresh and decoded'="?r" and w=world_registered,
      THEN conjunct2, THEN conjunct2] v4 a4 f4 t4
  have 4: "status (fst (refresh 9000 (Some alice_refresh) world_registered)) = 403"
    and 5: "refresh 9000 (Some alice_refresh) world_registered = (NotRecognized, world_registered)"
    by blast+
  from a4 have a4': "\<not> token_in_set (table world_registered) ''alice'' alice_refresh" by simp
  from b v 1 v2 2 v3 3 v4 a4' 4 5 show ?thesis by blast
qed

subsection \<open>Logout\<close>

lemma refresh_rotate_status:
  "status (fst (refresh_rotate now ctx w)) = 200 \<or>
   fst (refresh_rotate now ctx w) = json_message 403 ''Invalid or expired refresh token''"
  by (auto simp: refresh_rotate_def Let_def split: prod.splits sum.splits)

lemma refresh_reject:
  assumes t: "truthy_jwt (Some rt) = Some rt"
    and a: "\<And>decoded. jwt_verify rt JWT_SECRET now = Inr decoded \<Longrightarrow> p_type decoded = Some ''refresh'' \<Longrightarrow>
              \<not> token_in_set (table w) (p_username decoded) rt"
  shows "status (fst (refresh now (Some rt) w)) = 403 \<and>
         body_token (fst (refresh now (Some rt) w)) = None \<and>
         body_refreshToken (fst (refresh now (Some rt) w)) = None \<and>
         table (snd (refresh now (Some rt) w)) = table w"
proof -
  obtain c w1 where rc: "refresh_check now (Some rt) w = (c, w1)" by fastforce
  show ?thesis
  proof (cases c)
    case (Inl resp)
    from rc Inl have r: "refresh now (Some rt) w = (resp, w1)" by (simp add: refresh_def)
    from rc Inl refresh_check_Inl[of now "Some rt" w resp w1]
    have tb: "table w1 = table w" and st: "status resp = 400 \<or> status resp = 403" by auto
    from refresh_check_400[of now "Some rt" w resp w1] rc Inl t st
    have "status resp = 403" by auto
    moreover from refresh_check_Inl_message[of now "Some rt" w resp w1] rc Inl
    have "body_token resp = None \<and> body_refreshToken resp = None"
      by (metis json_message_def response.select_convs(3) response.select_convs(4))
    ultimately show ?thesis using r tb by simp
  next
    case (Inr ctx)
    obtain rt' decoded' u where ctx: "ctx = (rt', decoded', u)" by (cases ctx) auto
    from refresh_check_Inr[of now "Some rt" w rt' decoded' u w1] rc Inr ctx a show ?thesis
      by (auto simp: token_in_set_def)
  qed
qed

lemma clearRefreshTokens_Inr:
  assumes "clearRefreshTokens name w = (Inr it, w')"
  shows "map_of (table w') name = Some it \<and> refreshTokens it = Some []"
  using assms
  by (auto simp: clearRefreshTokens_def UpdateCommand_def Let_def map_of_put_item
      split: prod.splits if_splits)

lemma authenticateToken_Reject_status:
  "authenticateToken cognito authHeader now = Reject resp \<Longrightarrow> status resp = 401 \<or> status resp = 403"
  by (auto simp: authenticateToken_def json_message_def split: option.splits sum.splits if_splits)

lemma logout_200:
  assumes "logout cognito now authHeader w = (resp, w')" "status resp = 200"
  shows "\<exists>u name it. authenticateToken cognito authHeader now = Next u \<and>
           nonempty (req_username u) = Some name \<and>
           map_of (table w') name = Some it \<and> refreshTokens it = Some []"
proof -
  from assms obtain u name r where au: "authenticateToken cognito authHeader now = Next u"
    and n: "nonempty (req_username u) = Some name"
    and c: "clearRefreshTokens name w = (r, w')"
    and nr: "\<not> (\<exists>e. r = Inl e)"
    by (auto simp: logout_def json_message_def split: auth_result.splits option.splits prod.splits sum.splits
        dest: authenticateToken_Reject_status)
  then obtain it where "r = Inr it" by (cases r) auto
  with c clearRefreshTokens_Inr[of name w it w'] au n show ?thesis by auto
qed

lemma Signed_truthy: "truthy_jwt (Some (Signed p key)) = Some (Signed p key)"
  by (simp add: truthy_jwt_def falsy_jwt_def)

lemma token_not_in_cleared:
  "map_of t name = Some it \<Longrightarrow> refreshTokens it = Some [] \<Longrightarrow> \<not> token_in_set t name rt"
  by (simp add: token_in_set_def)

lemma jwt_verify_Signed: "jwt_verify (Signed p key) secret now = Inr decoded \<Longrightarrow> decoded = p"
  by (auto simp: jwt_verify_def split: if_splits)

lemma authenticateToken_unexpired_local:
  assumes "now div 1000 < p_exp a"
  shows "authenticateToken None (bearer_header (Signed a JWT_SECRET)) now = Next (LegacyUser a)"
  using assms
  by (auto simp: authenticateToken_def bearer_header_def bearer_def Signed_truthy jwt_verify_def)

lemma authenticateToken_unexpired_any:
  assumes "now div 1000 < p_exp a"
  shows "\<exists>u. authenticateToken cognito (bearer_header (Signed a JWT_SECRET)) now = Next u"
  using assms
  by (auto simp: authenticateToken_def bearer_header_def bearer_def Signed_truthy jwt_verify_def
      split: option.splits sum.splits)

text \<open>
  Claim C4. A logout that succeeds leaves the user's list of refresh tokens empty. From
  then on a refresh request with any token that names this user is answered 403 and
  issues nothing; when the token passes the signature, expiry and kind checks and the
  store answers, the reply is the one of the membership rejection branch
  (\<open>NotRecognized\<close>). The authenticator does not read the table: an access token of
  this user that has not yet expired still authenticates after the logout, whatever
  external verifier is configured.
\<close>

theorem logout_revokes_refresh_tokens_not_access_tokens:
  "logout cognito now authHeader w = (resp, w') \<and> status resp = 200 \<longrightarrow>
     (\<exists>u name. authenticateToken cognito authHeader now = Next u \<and>
        nonempty (req_username u) = Some name \<and>
        (\<exists>it. map_of (table w') name = Some it \<and> refreshTokens it = Some []) \<and>
        (\<forall>p key later.
           p_username p = name \<longrightarrow>
             status (fst (refresh later (Some (Signed p key)) w')) = 403 \<and>
             body_token (fst (refresh later (Some (Signed p key)) w')) = None \<and>
             body_refreshToken (fst (refresh later (Some (Signed p key)) w')) = None \<and>
             (jwt_verify (Signed p key) JWT_SECRET later = Inr p \<and> p_type p = Some ''refresh'' \<and>
              faults w' = [] \<longrightarrow>
                fst (refresh later (Some (Signed p key)) w') = NotRecognized)) \<and>
        (\<forall>a later verifier.
           p_username a = name \<and> later div 1000 < p_exp a \<longrightarrow>
             authenticateToken None (bearer_header (Signed a JWT_SECRET)) later = Next (LegacyUser a) \<and>
             (\<exists>u'. authenticateToken verifier (bearer_header (Signed a JWT_SECRET)) later = Next u')))"
proof (intro impI, elim conjE)
  assume lo: "logout cognito now authHeader w = (resp, w')" and st: "status resp = 200"
  from logout_200[OF lo st] obtain u name it where
    au: "authenticateToken cognito authHeader now = Next u"
    and n: "nonempty (req_username u) = Some name"
    and m: "map_of (table w') name = Some it" and e: "refreshTokens it = Some []" by blast
  have absent: "\<not> token_in_set (table w') name rt" for rt
    using token_not_in_cleared[OF m e] .
  have rej: "status (fst (refresh later (Some (Signed p key)) w')) = 403 \<and>
             body_token (fst (refresh later (Some (Signed p key)) w')) = None \<and>
             body_refreshToken (fst (refresh later (Some (Signed p key)) w')) = None"
    if "p_username p = name" for p key later
  proof -
    have "\<not> token_in_set (table w') (p_username decoded) (Signed p key)"
      if "jwt_verify (Signed p key) JWT_SECRET later = Inr decoded" for decoded
      using jwt_verify_Signed[OF that] absent \<open>p_username p = name\<close> by simp
    from refresh_reject[of "Signed p key" later w', OF Signed_truthy] this show ?thesis by blast
  qed
  have nr: "fst (refresh later (Some (Signed p key)) w') = NotRecognized"
    if "p_username p = name" "jwt_verify (Signed p key) JWT_SECRET later = Inr p"
      "p_type p = Some ''refresh''" "faults w' = []" for p key later
    using refresh_absent_no_faults[of "Signed p key" later p w'] that absent by simp
  have acc: "authenticateToken None (bearer_header (Signed a JWT_SECRET)) later = Next (LegacyUser a) \<and>
             (\<exists>u'. authenticateToken verifier (bearer_header (Signed a JWT_SECRET)) later = Next u')"
    if "p_username a = name \<and> later div 1000 < p_exp a" for a later verifier
    using that authenticateToken_unexpired_local[of later a] authenticateToken_unexpired_any[of later a verifier] by blast
  have 1: "\<exists>it. map_of (table w') name = Some it \<and> refreshTokens it = Some []"
    using m e by blast
  have 2: "\<forall>p key later.
           p_username p = name \<longrightarrow>
             status (fst (refresh later (Some (Signed p key)) w')) = 403 \<and>
             body_token (fst (refresh later (Some (Signed p key)) w')) = None \<and>
             body_refreshToken (fst (refresh later (Some (Signed p key)) w')) = None \<and>
             (jwt_verify (Signed p key) JWT_SECRET later = Inr p \<and> p_type p = Some ''refresh'' \<and>
              faults w' = [] \<longrightarrow>
                fst (refresh later (Some (Signed p key)) w') = NotRecognized)"
    using rej nr by blast
  have 3: "\<forall>a later verifier.
           p_username a = name \<and> later div 1000 < p_exp a \<longrightarrow>
             authenticateToken None (bearer_header (Signed a JWT_SECRET)) later = Next (LegacyUser a) \<and>
             (\<exists>u'. authenticateToken verifier (bearer_header (Signed a JWT_SECRET)) later = Next u')"
    using acc by blast
  from au n 1 2 3
  show "\<exists>u name. authenticateToken cognito authHeader now = Next u \<and>
        nonempty (req_username u) = Some name \<and>
        (\<exists>it. map_of (table w') name = Some it \<and> refreshTokens it = Some []) \<and>
        (\<forall>p key later.
           p_username p = name \<longrightarrow>
             status (fst (refresh later (Some (Signed p key)) w')) = 403 \<and>
             body_token (fst (refresh later (Some (Signed p key)) w')) = None \<and>
             body_refreshToken (fst (refresh later (Some (Signed p key)) w')) = None \<and>
             (jwt_verify (Signed p key) JWT_SECRET later = Inr p \<and> p_type p = Some ''refresh'' \<and>
              faults w' = [] \<longrightarrow>
                fst (refresh later (Some (Signed p key)) w') = NotRecognized)) \<and>
        (\<forall>a later verifier.
           p_username a = name \<and> later div 1000 < p_exp a \<longrightarrow>
             authenticateToken None (bearer_header (Signed a JWT_SECRET)) later = Next (LegacyUser a) \<and>
             (\<exists>u'. authenticateToken verifier (bearer_header (Signed a JWT_SECRET)) later = Next u'))"
    by (intro exI[of _ u] exI[of _ name] conjI)
qed


theorem logout_revokes_refresh_tokens_not_access_tokens_witness:
  "logout None 6000 (bearer_header alice_access) world_logged_in =
     (json_message 200 ''Logged out successfully'', world_registered) \<and>
   status (json_message 200 ''Logged out successfully'') = 200 \<and>
   token_in_set (table world_logged_in) ''alice'' alice_refresh \<and>
   status (fst (refresh 9000 (Some alice_refresh) world_registered)) = 403 \<and>
   fst (refresh 9000 (Some alice_refresh) world_registered) = NotRecognized \<and>
   authenticateToken None (bearer_header alice_access) 9000 =
     Next (LegacyUser \<lparr>p_id = Some ''alice'', p_username = ''alice'', p_type = None,
                        p_iat = 5, p_exp = 86405\<rparr>)"
proof -
  let ?a = "\<lparr>p_id = Some ''alice'', p_username = ''alice'', p_type = None,
             p_iat = 5, p_exp = 86405\<rparr>"
  let ?r = "\<lparr>p_id = Some ''alice'', p_username = ''alice'', p_type = Some ''refresh'',
             p_iat = 5, p_exp = 604805\<rparr>"
  have acc: "alice_access = Signed ?a JWT_SECRET" and ref: "alice_refresh = Signed ?r JWT_SECRET"
    by (simp_all add: example_defs codec_defs)
  have au: "authenticateToken None (bearer_header alice_access) 6000 = Next (LegacyUser ?a)"
    by (simp add: authenticateToken_def bearer_def bearer_header_def codec_defs example_defs)
  have lo: "logout None 6000 (bearer_header alice_access) world_logged_in =
     (json_message 200 ''Logged out successfully'', world_registered)"
    by (simp add: logout_def authenticateToken_def bearer_def bearer_header_def req_username_def
        json_message_def codec_defs store_defs example_defs Let_def)
  have st: "status (json_message 200 ''Logged out successfully'') = 200"
    by (simp add: json_message_def)
  have m: "token_in_set (table world_logged_in) ''alice'' alice_refresh"
    by (simp add: example_defs token_in_set_def)
  have v: "jwt_verify (Signed ?r JWT_SECRET) JWT_SECRET 9000 = Inr ?r"
    by (simp add: codec_defs)
  have f: "faults world_registered = []" by (simp add: world_registered_def)
  from logout_revokes_refresh_tokens_not_access_tokens[of None 6000 "bearer_header alice_access"
      world_logged_in "json_message 200 ''Logged out successfully''" world_registered] lo st
  obtain u name where u: "authenticateToken None (bearer_header alice_access) 6000 = Next u"
    and n: "nonempty (req_username u) = Some name"
    and r: "\<forall>p key later. p_username p = name \<longrightarrow>
             status (fst (refresh later (Some (Signed p key)) world_registered)) = 403 \<and>
             body_token (fst (refresh later (Some (Signed p key)) world_registered)) = None \<and>
             body_refreshToken (fst (refresh later (Some (Signed p key)) world_registered)) = None \<and>
             (jwt_verify (Signed p key) JWT_SECRET later = Inr p \<and> p_type p = Some ''refresh'' \<and>
              faults world_registered = [] \<longrightarrow>
                fst (refresh later (Some (Signed p key)) world_registered) = NotRecognized)"
    and a: "\<forall>a later verifier. p_username a = name \<and> later div 1000 < p_exp a \<longrightarrow>
             authenticateToken None (bearer_header (Signed a JWT_SECRET)) later = Next (LegacyUser a) \<and>
             (\<exists>u'. authenticateToken verifier (bearer_header (Signed a JWT_SECRET)) later = Next u')"
    by blast
  from u au n have name: "name = ''alice''"
    by (auto simp: req_username_def nonempty_def truthy_def split: if_splits)
  from r[THEN spec[of _ ?r], THEN spec[of _ JWT_SECRET], THEN spec[of _ 9000]] name v f ref
  have 1: "status (fst (refresh 9000 (Some alice_refresh) world_registered)) = 403"
    and 2: "fst (refresh 9000 (Some alice_refresh) world_registered) = NotRecognized"
    by (simp_all add: NotRecognized_def json_message_def)
  from a[THEN spec[of _ ?a], THEN spec[of _ 9000], THEN spec[of _ None]] name acc
  have 3: "authenticateToken None (bearer_header alice_access) 9000 = Next (LegacyUser ?a)"
    by simp
  from lo st m 1 2 3 show ?thesis by blast
qed


subsection \<open>Rotation\<close>

lemma filter_same_length: "length (filter P xs) = length xs \<Longrightarrow> x \<in> set xs \<Longrightarrow> P x"
proof (induction xs)
  case Nil
  then show ?case by simp
next
  case (Cons a xs)
  have "length (filter P xs) \<noteq> Suc (length xs)"
    using length_filter_le[of P xs] by linarith
  with Cons show ?case by (auto split: if_splits)
qed

lemma removeRefreshToken_Inr:
  assumes "removeRefreshToken name rt w = (Inr r, w')"
  shows "\<not> token_in_set (table w') name rt"
proof -
  obtain g w1 where g: "getUserByUsername name w = (g, w1)" by fastforce
  from getUserByUsername_cases[OF g] have t1: "table w1 = table w"
    and gc: "g = Inl StoreError \<or> g = Inr (map_of (table w) name)" by auto
  from assms g gc have g': "g = Inr (map_of (table w) name)"
    by (auto simp: removeRefreshToken_def)
  show ?thesis
  proof (cases "map_of (table w) name")
    case None
    with g g' have "getUserByUsername name w = (Inr None, w1)" by simp
    with assms have "w' = w1" by (simp add: removeRefreshToken_def)
    with t1 None show ?thesis by (simp add: token_in_set_def)
  next
    case (Some u)
    with g g' have gu: "getUserByUsername name w = (Inr (Some u), w1)" by simp
    show ?thesis
    proof (cases "refreshTokens u")
      case None
      with assms gu have "w' = w1" by (simp add: removeRefreshToken_def)
      with t1 Some None show ?thesis by (simp add: token_in_set_def)
    next
      case ts: (Some ts)
      show ?thesis
      proof (cases "length (filter (\<lambda>t. t \<noteq> rt) ts) = length ts")
        case True
        then have "rt \<notin> set ts" using filter_same_length[of "\<lambda>t. t \<noteq> rt" ts rt] by blast
        moreover from assms gu ts True have "w' = w1" by (simp add: removeRefreshToken_def)
        ultimately show ?thesis using t1 Some ts by (simp add: token_in_set_def)
      next
        case False
        with assms gu ts obtain it where
          up: "UpdateCommand name (\<lambda>it. it\<lparr>refreshTokens := Some (filter (\<lambda>t. t \<noteq> rt) ts)\<rparr>) w1 = (Inr it, w')"
          by (auto simp: removeRefreshToken_def Let_def split: prod.splits sum.splits)
        obtain ok w2 where s: "send w1 = (ok, w2)" by fastforce
        from send_table[OF s] t1 have "table w2 = table w" by simp
        with up s Some show ?thesis
          by (auto simp: UpdateCommand_def Let_def token_in_set_def map_of_put_item split: if_splits)
      qed
    qed
  qed
qed

lemma addRefreshToken_Inr:
  assumes "addRefreshToken name new w = (Inr it, w')"
  shows "token_in_set (table w') name t = (t = new \<or> token_in_set (table w) name t)"
proof -
  obtain ok w1 where s: "send w = (ok, w1)" by fastforce
  from send_table[OF s] have "table w1 = table w" .
  with assms s show ?thesis
    by (auto simp: addRefreshToken_def UpdateCommand_def Let_def token_in_set_def map_of_put_item
        blank_item_def split: if_splits option.splits)
qed

lemma refresh_consumes_token:
  assumes r: "refresh now (Some rt) w = (resp, w')" and s: "status resp = 200"
    and v: "jwt_verify rt JWT_SECRET now = Inr decoded" and d: "now div 1000 \<noteq> p_iat decoded"
  shows "\<not> token_in_set (table w') (p_username decoded) rt"
proof -
  obtain c w1 where rc: "refresh_check now (Some rt) w = (c, w1)" by fastforce
  from r s rc refresh_check_Inl[of now "Some rt" w _ w1] obtain ctx where c: "c = Inr ctx"
    by (cases c) (auto simp: refresh_def)
  obtain rt' decoded' u where ctx: "ctx = (rt', decoded', u)" by (cases ctx) auto
  from refresh_check_Inr[of now "Some rt" w rt' decoded' u w1] rc c ctx v
  have eq: "rt' = rt" "decoded' = decoded" by auto
  let ?new = "jwt_sign (user_id u) (username u) (Some ''refresh'') JWT_SECRET REFRESH_TOKEN_EXPIRES_IN now"
  from r rc c ctx eq have rot: "refresh_rotate now (rt, decoded, u) w1 = (resp, w')"
    by (simp add: refresh_def)
  obtain rr w2 where rm: "removeRefreshToken (p_username decoded) rt w1 = (rr, w2)" by fastforce
  obtain ar w3 where ad: "addRefreshToken (p_username decoded) ?new w2 = (ar, w3)" by fastforce
  from rot s rm obtain removed where rr: "rr = Inr removed"
    by (cases rr) (auto simp: refresh_rotate_def Let_def json_message_def)
  from rot s rm rr ad obtain stored where ar: "ar = Inr stored" and w3: "w3 = w'"
    by (cases ar) (auto simp: refresh_rotate_def Let_def json_message_def)
  from removeRefreshToken_Inr[of "p_username decoded" rt w1 removed w2] rm rr
  have gone: "\<not> token_in_set (table w2) (p_username decoded) rt" by simp
  from v have "rt = Signed decoded JWT_SECRET"
    by (auto simp: jwt_verify_def split: jwt.splits if_splits)
  with d have ne: "rt \<noteq> ?new" by (auto simp: jwt_sign_def)
  from addRefreshToken_Inr[of "p_username decoded" ?new w2 stored w3 rt] ad ar gone ne w3
  show ?thesis by simp
qed

lemma refresh_single_use_after_issuing_second:
  assumes r: "refresh now (Some rt) w = (resp, w')" and s: "status resp = 200"
    and v: "jwt_verify rt JWT_SECRET now = Inr decoded" and d: "now div 1000 \<noteq> p_iat decoded"
  shows "status (fst (refresh later (Some rt) w')) = 403 \<and>
         body_token (fst (refresh later (Some rt) w')) = None \<and>
         body_refreshToken (fst (refresh later (Some rt) w')) = None"
proof -
  from v have sg: "rt = Signed decoded JWT_SECRET"
    by (auto simp: jwt_verify_def split: jwt.splits if_splits)
  have "\<not> token_in_set (table w') (p_username decoded'') rt"
    if "jwt_verify rt JWT_SECRET later = Inr decoded''" for decoded''
    using that sg jwt_verify_Signed[of decoded JWT_SECRET JWT_SECRET later decoded'']
      refresh_consumes_token[OF r s v d] by simp
  with refresh_reject[of rt later w'] jwt_verify_truthy[OF v] show ?thesis by blast
qed

text \<open>
  Claim C1. A refresh token is to be redeemable at most once. The handler removes the
  presented token and appends the newly signed one, which differs from the presented
  token only in its timestamps (\<open>refresh_single_use_after_issuing_second\<close> is the case
  in which they differ). A refresh within the clock second in which the presented token
  was issued signs the very same token again: after a login at 5000 ms, the refresh at
  5400 ms succeeds, returns the presented token and leaves the table as it was, and the
  second refresh with the same token at 5900 ms succeeds as well.
\<close>

theorem refresh_token_redeemed_twice_in_issuing_second:
  "body_refreshToken (fst (login (\<lambda>pw hash. True) 5000 (Some ''alice'') (Some ''Secret123!'') world_registered)) =
     Some alice_refresh \<and>
   snd (login (\<lambda>pw hash. True) 5000 (Some ''alice'') (Some ''Secret123!'') world_registered) = world_logged_in \<and>
   status (fst (refresh 5400 (Some alice_refresh) world_logged_in)) = 200 \<and>
   body_refreshToken (fst (refresh 5400 (Some alice_refresh) world_logged_in)) = Some alice_refresh \<and>
   snd (refresh 5400 (Some alice_refresh) world_logged_in) = world_logged_in \<and>
   status (fst (refresh 5900 (Some alice_refresh)
                  (snd (refresh 5400 (Some alice_refresh) world_logged_in)))) = 200"
proof -
  have l: "login (\<lambda>pw hash. True) 5000 (Some ''alice'') (Some ''Secret123!'') world_registered =
     (\<lparr>status = 200, message = ''Login successful'',
       body_token = Some alice_access, body_refreshToken = Some alice_refresh,
       body_user = Some (user_summary alice)\<rparr>, world_logged_in)"
    by (simp add: login_def example_defs codec_defs store_defs Let_def)
  have r: "refresh 5400 (Some alice_refresh) world_logged_in =
     (\<lparr>status = 200, message = ''Token refreshed successfully'',
       body_token = Some alice_access, body_refreshToken = Some alice_refresh,
       body_user = Some (user_summary (alice\<lparr>refreshTokens := Some [alice_refresh]\<rparr>))\<rparr>,
      world_logged_in)"
    by (simp add: refresh_def refresh_check_def refresh_rotate_def json_message_def
        example_defs codec_defs store_defs Let_def)
  have r2: "status (fst (refresh 5900 (Some alice_refresh) world_logged_in)) = 200"
    by (simp add: refresh_def refresh_check_def refresh_rotate_def json_message_def
        example_defs codec_defs store_defs Let_def)
  from l r r2 show ?thesis by simp
qed

text \<open>
  Claim C6. Of two concurrent refresh requests with the same token at most one is to
  succeed, by a conditional update of the store. The handler reads, filters in the server
  and writes back: when both requests pass the membership check before either rotates,
  both are answered 200, and the list ends up with two new refresh tokens for the one
  that was presented.
\<close>

theorem concurrent_refreshes_both_succeed:
  "status (fst (fst (two_refreshes_interleaved 9000 10500 (Some alice_refresh) world_logged_in))) = 200 \<and>
   status (snd (fst (two_refreshes_interleaved 9000 10500 (Some alice_refresh) world_logged_in))) = 200 \<and>
   body_refreshToken (fst (fst (two_refreshes_interleaved 9000 10500 (Some alice_refresh) world_logged_in))) =
     Some (jwt_sign (Some ''alice'') ''alice'' (Some ''refresh'') JWT_SECRET REFRESH_TOKEN_EXPIRES_IN 9000) \<and>
   body_refreshToken (snd (fst (two_refreshes_interleaved 9000 10500 (Some alice_refresh) world_logged_in))) =
     Some (jwt_sign (Some ''alice'') ''alice'' (Some ''refresh'') JWT_SECRET REFRESH_TOKEN_EXPIRES_IN 10500) \<and>
   map_of (table (snd (two_refreshes_interleaved 9000 10500 (Some alice_refresh) world_logged_in))) ''alice'' =
     Some (alice\<lparr>refreshTokens := Some
       [jwt_sign (Some ''alice'') ''alice'' (Some ''refresh'') JWT_SECRET REFRESH_TOKEN_EXPIRES_IN 9000,
        jwt_sign (Some ''alice'') ''alice'' (Some ''refresh'') JWT_SECRET REFRESH_TOKEN_EXPIRES_IN 10500]\<rparr>)"
  by (simp add: two_refreshes_interleaved_def refresh_check_def refresh_rotate_def json_message_def
        example_defs codec_defs store_defs Let_def)


subsection \<open>Email verification\<close>

lemma UpdateCommand_cases:
  assumes "UpdateCommand name f w = (r, w')"
  shows "(r = Inl StoreError \<and> table w' = table w) \<or>
         (r = Inr (f (case map_of (table w) name of None \<Rightarrow> blank_item name | Some old \<Rightarrow> old)) \<and>
          table w' = put_item name (f (case map_of (table w) name of None \<Rightarrow> blank_item name | Some old \<Rightarrow> old)) (table w))"
proof -
  obtain ok w1 where s: "send w = (ok, w1)" by fastforce
  from send_table[OF s] have "table w1 = table w" .
  with assms s show ?thesis
    by (auto simp: UpdateCommand_def Let_def split: if_splits)
qed

lemma getUserByVerificationToken_cases:
  assumes "getUserByVerificationToken tok w = (r, w')"
  shows "table w' = table w \<and>
         (r = Inl StoreError \<or>
          r = Inr (case first_item (table w) of None \<Rightarrow> None
                   | Some it \<Rightarrow> if emailVerificationToken it = Some tok then Some it else None))"
proof -
  obtain ok w1 where s: "send w = (ok, w1)" by fastforce
  from send_table[OF s] have "table w1 = table w" .
  with assms s show ?thesis
    by (cases "table w")
      (auto simp: getUserByVerificationToken_def ScanCommand_def Let_def first_item_def
        split: if_splits)
qed

lemma getUserByVerificationToken_no_faults:
  "faults w = [] \<Longrightarrow> getUserByVerificationToken tok w =
     (Inr (case first_item (table w) of None \<Rightarrow> None
           | Some it \<Rightarrow> if emailVerificationToken it = Some tok then Some it else None), w)"
  by (cases "table w")
    (auto simp: getUserByVerificationToken_def ScanCommand_def Let_def first_item_def send_no_faults)

lemma nonempty_Some: "nonempty (Some s) = (if s = [] then None else Some s)"
  by (simp add: nonempty_def truthy_def)

lemma verify_email_200:
  assumes v: "verify_email now (Some tok) w = (resp, w')" and st: "status resp = 200"
  shows "\<exists>u. first_item (table w) = Some u \<and> emailVerificationToken u = Some tok \<and>
           body_user resp = Some \<lparr>v_id = user_id u, v_username = username u, v_email = email u,
                                   v_emailVerified = Some True, v_createdAt = createdAt u\<rparr> \<and>
           (\<exists>it. map_of (table w') (username u) = Some it \<and> emailVerified it = Some True \<and>
                 emailVerificationToken it = None) \<and>
           (\<exists>old rts. table w' =
              put_item (username u)
                (old\<lparr>emailVerified := Some True, emailVerificationToken := None, refreshTokens := rts\<rparr>)
                (put_item (username u)
                   (old\<lparr>emailVerified := Some True, emailVerificationToken := None\<rparr>) (table w)))"
proof -
  from v st have ne: "tok \<noteq> []"
    by (auto simp: verify_email_def nonempty_Some json_message_def split: if_splits)
  obtain g w1 where g: "getUserByVerificationToken tok w = (g, w1)" by fastforce
  from v st g ne obtain u where gu: "g = Inr (Some u)"
    by (cases g) (auto simp: verify_email_def nonempty_Some json_message_def split: option.splits)
  from getUserByVerificationToken_cases[OF g] gu
  have t1: "table w1 = table w" and fi: "first_item (table w) = Some u"
    and tk: "emailVerificationToken u = Some tok"
    by (auto split: option.splits if_splits)
  let ?f = "\<lambda>it. it\<lparr>emailVerified := Some True, emailVerificationToken := None\<rparr>"
  obtain r2 w2 where up: "updateUser (username u) ?f w1 = (r2, w2)" by fastforce
  from v st g gu up ne obtain updated where r2: "r2 = Inr updated"
    by (cases r2) (auto simp: verify_email_def nonempty_Some json_message_def)
  let ?old = "case map_of (table w) (username u) of None \<Rightarrow> blank_item (username u) | Some old \<Rightarrow> old"
  from UpdateCommand_cases[of "username u" ?f w1 r2 w2] up r2 t1
  have t2: "table w2 = put_item (username u) (?f ?old) (table w)"
    by (auto simp: updateUser_def)
  let ?new = "jwt_sign (user_id u) (username u) (Some ''refresh'') JWT_SECRET REFRESH_TOKEN_EXPIRES_IN now"
  let ?a = "\<lambda>it. it\<lparr>refreshTokens := Some ((case refreshTokens it of None \<Rightarrow> [] | Some ts \<Rightarrow> ts) @ [?new])\<rparr>"
  obtain r3 w3 where ad: "addRefreshToken (username u) ?new w2 = (r3, w3)" by fastforce
  from v st g gu up r2 ad ne obtain stored where r3: "r3 = Inr stored" and w3: "w3 = w'"
    and bu: "body_user resp = Some \<lparr>v_id = user_id u, v_username = username u, v_email = email u,
                                   v_emailVerified = Some True, v_createdAt = createdAt u\<rparr>"
    by (cases r3) (auto simp: verify_email_def nonempty_Some json_message_def Let_def)
  from UpdateCommand_cases[of "username u" ?a w2 r3 w3] ad r3 t2 w3
  have t3: "table w' = put_item (username u) (?a (?f ?old)) (put_item (username u) (?f ?old) (table w))"
    by (auto simp: addRefreshToken_def map_of_put_item)
  have m: "map_of (table w') (username u) = Some (?a (?f ?old))"
    by (simp add: t3 map_of_put_item)
  have "\<exists>old rts. table w' =
              put_item (username u)
                (old\<lparr>emailVerified := Some True, emailVerificationToken := None, refreshTokens := rts\<rparr>)
                (put_item (username u)
                   (old\<lparr>emailVerified := Some True, emailVerificationToken := None\<rparr>) (table w))"
    by (rule exI[of _ ?old], rule exI[of _ "refreshTokens (?a (?f ?old))"]) (simp add: t3)
  with fi tk bu m show ?thesis by auto
qed


lemma verify_email_no_match:
  assumes ne: "tok \<noteq> []"
    and nm: "\<And>it. first_item (table w) = Some it \<Longrightarrow> emailVerificationToken it \<noteq> Some tok"
  shows "status (fst (verify_email now (Some tok) w)) \<noteq> 200 \<and>
         table (snd (verify_email now (Some tok) w)) = table w \<and>
         (faults w = [] \<longrightarrow>
            verify_email now (Some tok) w = (json_message 404 ''Invalid or expired verification token'', w))"
proof -
  obtain g w1 where g: "getUserByVerificationToken tok w = (g, w1)" by fastforce
  from getUserByVerificationToken_cases[OF g] nm
  have t1: "table w1 = table w" and gc: "g = Inl StoreError \<or> g = Inr None"
    by (auto split: option.splits)
  from g gc t1 ne have "status (fst (verify_email now (Some tok) w)) \<noteq> 200 \<and>
         table (snd (verify_email now (Some tok) w)) = table w"
    by (auto simp: verify_email_def nonempty_Some json_message_def)
  moreover have "verify_email now (Some tok) w = (json_message 404 ''Invalid or expired verification token'', w)"
    if "faults w = []"
    using getUserByVerificationToken_no_faults[OF that, of tok] nm ne
    by (auto simp: verify_email_def nonempty_Some split: option.splits)
  ultimately show ?thesis by blast
qed

lemma first_item_not_held:
  assumes "list_all (\<lambda>(k, it). emailVerificationToken it \<noteq> Some tok) t" "first_item t = Some it"
  shows "emailVerificationToken it \<noteq> Some tok"
  using assms by (cases t) (auto simp: first_item_def)

lemma first_item_after_consumption:
  assumes wk: "well_keyed t" and fi: "first_item t = Some u"
  shows "first_item (put_item (username u) x (put_item (username u) y t)) = Some x"
  using assms by (cases t) (auto simp: first_item_def well_keyed_def)

text \<open>
  The writers of the table keep every item under its own \<open>username\<close>: the update
  expressions of the repository never set the key attribute.
\<close>

lemma well_keyed_put_item:
  "well_keyed t \<Longrightarrow> username v = k \<Longrightarrow> well_keyed (put_item k v t)"
  by (induction t) (auto simp: well_keyed_def)

lemma well_keyed_map_of: "well_keyed t \<Longrightarrow> map_of t k = Some it \<Longrightarrow> username it = k"
  by (induction t) (auto simp: well_keyed_def split: if_splits)

lemma UpdateCommand_well_keyed:
  assumes wk: "well_keyed (table w)" and f: "\<And>it. username (f it) = username it"
    and u: "UpdateCommand name f w = (r, w')"
  shows "well_keyed (table w')"
proof -
  let ?old = "case map_of (table w) name of None \<Rightarrow> blank_item name | Some old \<Rightarrow> old"
  have "username ?old = name"
    using well_keyed_map_of[OF wk] by (auto simp: blank_item_def split: option.splits)
  with f have "username (f ?old) = name" by simp
  with UpdateCommand_cases[OF u] wk well_keyed_put_item[of "table w" "f ?old" name]
  show ?thesis by auto
qed

lemma createUser_well_keyed:
  assumes wk: "well_keyed (table w)" and c: "createUser userData w = (r, w')"
  shows "well_keyed (table w')"
proof -
  obtain ok w1 where s: "send w = (ok, w1)" by fastforce
  from send_table[OF s] wk have "well_keyed (table w1)" by simp
  with c s show ?thesis
    by (auto simp: createUser_def PutCommand_def Let_def well_keyed_put_item
        split: if_splits put_result.splits prod.splits)
qed

text \<open>
  Claim C5. Email verification tokens are single-use. A verification that succeeds found
  the token on the user it returns, and leaves that user with \<open>emailVerified\<close> true and
  no stored token; presenting the same token again does not succeed, and is answered with
  404 while the store answers. A token that no item holds, never issued or consumed alike,
  gets that same 404 reply and changes nothing.
\<close>

theorem email_verification_token_single_use:
  "(verify_email now (Some tok) w = (resp, w') \<and> status resp = 200 \<longrightarrow>
      (\<exists>u. first_item (table w) = Some u \<and> emailVerificationToken u = Some tok \<and>
         body_user resp = Some \<lparr>v_id = user_id u, v_username = username u, v_email = email u,
                                 v_emailVerified = Some True, v_createdAt = createdAt u\<rparr> \<and>
         (\<exists>it. map_of (table w') (username u) = Some it \<and> emailVerified it = Some True \<and>
               emailVerificationToken it = None)) \<and>
      (well_keyed (table w) \<longrightarrow>
         status (fst (verify_email later (Some tok) w')) \<noteq> 200 \<and>
         table (snd (verify_email later (Some tok) w')) = table w' \<and>
         (faults w' = [] \<longrightarrow>
            verify_email later (Some tok) w' =
              (json_message 404 ''Invalid or expired verification token'', w')))) \<and>
   (tok \<noteq> [] \<and> list_all (\<lambda>(k, it). emailVerificationToken it \<noteq> Some tok) (table v) \<longrightarrow>
      status (fst (verify_email now (Some tok) v)) \<noteq> 200 \<and>
      table (snd (verify_email now (Some tok) v)) = table v \<and>
      (faults v = [] \<longrightarrow>
         verify_email now (Some tok) v =
           (json_message 404 ''Invalid or expired verification token'', v)))"
proof -
  have 1: "\<exists>u. first_item (table w) = Some u \<and> emailVerificationToken u = Some tok \<and>
         body_user resp = Some \<lparr>v_id = user_id u, v_username = username u, v_email = email u,
                                 v_emailVerified = Some True, v_createdAt = createdAt u\<rparr> \<and>
         (\<exists>it. map_of (table w') (username u) = Some it \<and> emailVerified it = Some True \<and>
               emailVerificationToken it = None)"
    if a: "verify_email now (Some tok) w = (resp, w') \<and> status resp = 200"
    using verify_email_200[of now tok w resp w'] a by blast
  have 2: "status (fst (verify_email later (Some tok) w')) \<noteq> 200 \<and>
         table (snd (verify_email later (Some tok) w')) = table w' \<and>
         (faults w' = [] \<longrightarrow>
            verify_email later (Some tok) w' =
              (json_message 404 ''Invalid or expired verification token'', w'))"
    if a: "verify_email now (Some tok) w = (resp, w') \<and> status resp = 200"
      and wk: "well_keyed (table w)"
  proof -
    from a have ne: "tok \<noteq> []"
      by (auto simp: verify_email_def nonempty_Some json_message_def split: if_splits)
    from verify_email_200[of now tok w resp w'] a obtain u old rts where
      fi: "first_item (table w) = Some u"
      and t: "table w' = put_item (username u)
                (old\<lparr>emailVerified := Some True, emailVerificationToken := None, refreshTokens := rts\<rparr>)
                (put_item (username u)
                   (old\<lparr>emailVerified := Some True, emailVerificationToken := None\<rparr>) (table w))"
      by blast
    from first_item_after_consumption[OF wk fi] t
    have "first_item (table w') =
          Some (old\<lparr>emailVerified := Some True, emailVerificationToken := None, refreshTokens := rts\<rparr>)"
      by simp
    then have nm: "emailVerificationToken it \<noteq> Some tok" if "first_item (table w') = Some it" for it
      using that by auto
    from verify_email_no_match[of tok w' later, OF ne nm] show ?thesis by blast
  qed
  have 3: "status (fst (verify_email now (Some tok) v)) \<noteq> 200 \<and>
      table (snd (verify_email now (Some tok) v)) = table v \<and>
      (faults v = [] \<longrightarrow>
         verify_email now (Some tok) v =
           (json_message 404 ''Invalid or expired verification token'', v))"
    if a: "tok \<noteq> [] \<and> list_all (\<lambda>(k, it). emailVerificationToken it \<noteq> Some tok) (table v)"
  proof -
    from a have nm: "emailVerificationToken it \<noteq> Some tok" if "first_item (table v) = Some it" for it
      using that first_item_not_held[of tok "table v" it] by blast
    from verify_email_no_match[of tok v now] a nm show ?thesis by blast
  qed
  from 1 2 3 show ?thesis by blast
qed


theorem email_verification_token_single_use_witness:
  "status (fst (verify_email 7000 (Some ''uuid-1'') world_registered)) = 200 \<and>
   snd (verify_email 7000 (Some ''uuid-1'') world_registered) = world_verified \<and>
   well_keyed (table world_registered) \<and>
   emailVerified alice_verified = Some True \<and>
   emailVerificationToken alice_verified = None \<and>
   verify_email 8000 (Some ''uuid-1'') world_verified =
     (json_message 404 ''Invalid or expired verification token'', world_verified) \<and>
   list_all (\<lambda>(k, it). emailVerificationToken it \<noteq> Some ''never-issued'') (table world_verified) \<and>
   verify_email 8000 (Some ''never-issued'') world_verified =
     (json_message 404 ''Invalid or expired verification token'', world_verified)"
proof -
  let ?X = "verify_email 7000 (Some ''uuid-1'') world_registered"
  have ev: "?X = (\<lparr>status = 200,
                   message = ''Email verified successfully! You can now use all features.'',
                   body_token = Some (jwt_sign (Some ''alice'') ''alice'' None JWT_SECRET JWT_EXPIRES_IN 7000),
                   body_refreshToken = Some (jwt_sign (Some ''alice'') ''alice'' (Some ''refresh'') JWT_SECRET
                                    REFRESH_TOKEN_EXPIRES_IN 7000),
                   body_user = Some \<lparr>v_id = Some ''alice'', v_username = ''alice'', v_email = Some [],
                                 v_emailVerified = Some True, v_createdAt = Some 1000\<rparr>\<rparr>, world_verified)"
    by (simp add: verify_email_def example_defs codec_defs store_defs Let_def)
  then have s: "status (fst ?X) = 200" and w: "snd ?X = world_verified" by simp_all
  have pr: "?X = (fst ?X, world_verified)" using w by (metis prod.collapse)
  have wk: "well_keyed (table world_registered)"
    by (simp add: well_keyed_def example_defs)
  have f: "faults world_verified = []" by (simp add: world_verified_def)
  have av: "emailVerified alice_verified = Some True" "emailVerificationToken alice_verified = None"
    by (simp_all add: alice_verified_def)
  have la: "list_all (\<lambda>(k, it). emailVerificationToken it \<noteq> Some ''never-issued'') (table world_verified)"
    by (simp add: world_verified_def alice_verified_def)
  from email_verification_token_single_use[of 7000 "''uuid-1''" world_registered "fst ?X" world_verified
      8000 world_verified] pr s wk f
  have 1: "verify_email 8000 (Some ''uuid-1'') world_verified =
     (json_message 404 ''Invalid or expired verification token'', world_verified)" by blast
  from email_verification_token_single_use[of 8000 "''never-issued''" world_registered "fst ?X" world_verified
      8000 world_verified] la f
  have 2: "verify_email 8000 (Some ''never-issued'') world_verified =
     (json_message 404 ''Invalid or expired verification token'', world_verified)" by simp
  from s w wk av 1 la 2 show ?thesis by blast
qed


subsection \<open>Share links\<close>

lemma shared_expired:
  assumes "m tok = Some s" "expiresAt s < int now"
  shows "shared processed now tok m = (SharedError 410 ''Shared link has expired'', m(tok := None))"
  using assms by (simp add: shared_def)

lemma shared_evicted:
  "shared processed now tok (m(tok := None)) =
     (SharedError 404 ''Shared link not found or expired'', m(tok := None))"
  by (simp add: shared_def)

lemma share_created:
  assumes "share listing uuid created requester imageId_in filterName_in expiresInHours_in m = (ShareCreated t e, m')"
  shows "t = uuid \<and> e = int created + (case expiresInHours_in of None \<Rightarrow> 24 | Some h \<Rightarrow> h) * 60 * 60 * 1000 \<and>
         (\<exists>s. m' t = Some s \<and> expiresAt s = e)"
  using assms
  by (auto simp: share_def Let_def split: option.splits if_splits)

lemma find_in_set: "find P xs = Some x \<Longrightarrow> x \<in> set xs"
  by (induction xs) (auto split: if_splits)

lemma shared_not_expired:
  assumes "m tok = Some s" "\<not> expiresAt s < int now"
  shows "shared processed now tok m =
           (if filename s \<in> set processed then SendFile (filename s)
            else SharedError 404 ''Image file not found'', m)"
  using assms by (simp add: shared_def)

lemma share_created_entry:
  assumes "share listing uuid created requester imageId_in filterName_in expiresInHours_in before = (ShareCreated t e, m')"
  shows "\<exists>s. m' t = Some s \<and> expiresAt s = e \<and> filename s \<in> set listing"
  using assms
  by (auto simp: share_def Let_def split: option.splits if_splits dest: find_in_set)

text \<open>
  Claim C8, as stated: a share token created with zero hours to live is immediately
  unresolvable. The handler compares with a strict \<^verbatim>\<open><\<close>: at the clock reading of its
  creation the token of the example is served and stays in the map.
\<close>

theorem share_zero_ttl_resolves_at_creation_counterexample:
  "fst shares_example = ShareCreated ''share-1'' 1000 \<and>
   fst (shared [''img1-sepia.png''] 1000 ''share-1'' (snd shares_example)) = SendFile ''img1-sepia.png'' \<and>
   (\<exists>s. snd (shared [''img1-sepia.png''] 1000 ''share-1'' (snd shares_example)) ''share-1'' = Some s)"
  by (simp add: shares_example_def share_def shared_def nonempty_def truthy_def MAX_DATE_def Let_def)

text \<open>
  Claim C8, amended. A share token whose expiry lies strictly before the clock at
  resolution time is not resolved: the handler deletes the entry and answers 410
  \<^verbatim>\<open>Shared link has expired\<close>, and every later request for the token gets the 404 of an
  unknown token. A token whose expiry is not before the clock is kept and resolved
  (served when its file exists). A token created with zero hours to live expires at its
  creation time: every resolution at a later reading of the clock is refused and evicts
  it, and a resolution at the creation reading still resolves it.
\<close>

theorem expired_share_token_is_evicted:
  "(m tok = Some s \<and> expiresAt s < int now \<longrightarrow>
      shared processed now tok m = (SharedError 410 ''Shared link has expired'', m(tok := None)) \<and>
      shared processed' later tok (m(tok := None)) =
        (SharedError 404 ''Shared link not found or expired'', m(tok := None))) \<and>
   (m tok = Some s \<and> \<not> expiresAt s < int now \<longrightarrow>
      shared processed now tok m =
        (if filename s \<in> set processed then SendFile (filename s)
         else SharedError 404 ''Image file not found'', m)) \<and>
   (share listing uuid created requester imageId_in filterName_in (Some 0) before = (ShareCreated t e, m') \<longrightarrow>
      t = uuid \<and> e = int created \<and>
      (created < now \<longrightarrow>
         shared processed now t m' = (SharedError 410 ''Shared link has expired'', m'(t := None))) \<and>
      (now \<le> created \<longrightarrow>
         (\<exists>file. file \<in> set listing \<and>
            shared processed now t m' =
              (if file \<in> set processed then SendFile file
               else SharedError 404 ''Image file not found'', m'))))"
proof -
  have 3: "t = uuid \<and> e = int created \<and>
      (created < now \<longrightarrow>
         shared processed now t m' = (SharedError 410 ''Shared link has expired'', m'(t := None))) \<and>
      (now \<le> created \<longrightarrow>
         (\<exists>file. file \<in> set listing \<and>
            shared processed now t m' =
              (if file \<in> set processed then SendFile file
               else SharedError 404 ''Image file not found'', m')))"
    if a: "share listing uuid created requester imageId_in filterName_in (Some 0) before = (ShareCreated t e, m')"
  proof -
    from share_created[OF a] have te: "t = uuid" "e = int created" by auto
    from share_created_entry[OF a] obtain s' where s': "m' t = Some s'" "expiresAt s' = e"
      "filename s' \<in> set listing" by blast
    have x: "shared processed now t m' = (SharedError 410 ''Shared link has expired'', m'(t := None))"
      if "created < now"
      using that s' te shared_expired[of m' t s' now processed] by simp
    have y: "\<exists>file. file \<in> set listing \<and>
            shared processed now t m' =
              (if file \<in> set processed then SendFile file
               else SharedError 404 ''Image file not found'', m')"
      if "now \<le> created"
    proof -
      from that s' te have "\<not> expiresAt s' < int now" by simp
      from shared_not_expired[of m' t s' now processed] s'(1) this s'(3) show ?thesis by blast
    qed
    from te x y show ?thesis by blast
  qed
  from 3 shared_expired[of m tok s now processed] shared_evicted[of processed' later tok m]
    shared_not_expired[of m tok s now processed]
  show ?thesis by blast
qed

theorem expired_share_token_is_evicted_witness:
  "fst shares_example = ShareCreated ''share-1'' 1000 \<and>
   fst (shared [''img1-sepia.png''] 1001 ''share-1'' (snd shares_example)) =
     SharedError 410 ''Shared link has expired'' \<and>
   snd (shared [''img1-sepia.png''] 1001 ''share-1'' (snd shares_example)) ''share-1'' = None \<and>
   fst (shared [''img1-sepia.png''] 1002 ''share-1''
          (snd (shared [''img1-sepia.png''] 1001 ''share-1'' (snd shares_example)))) =
     SharedError 404 ''Shared link not found or expired'' \<and>
   shared [''img1-sepia.png''] 1000 ''share-1'' (snd shares_example) =
     (SendFile ''img1-sepia.png'', snd shares_example)"
proof -
  have c: "fst shares_example = ShareCreated ''share-1'' 1000"
    by (simp add: shares_example_def share_def nonempty_def truthy_def MAX_DATE_def Let_def)
  then have p: "share [''img1-sepia.png''] ''share-1'' 1000 (Some ''alice'') (Some ''img1'') (Some ''sepia'')
       (Some 0) Map.empty = (ShareCreated ''share-1'' 1000, snd shares_example)"
    by (metis prod.collapse shares_example_def)
  have l: "(1000::nat) < 1001" "(1000::nat) \<le> 1000" by simp_all
  from expired_share_token_is_evicted[where listing="[''img1-sepia.png'']" and uuid="''share-1''"
      and created=1000 and requester="Some ''alice''" and imageId_in="Some ''img1''"
      and filterName_in="Some ''sepia''" and before=Map.empty and t="''share-1''" and e=1000
      and m'="snd shares_example" and now=1001 and processed="[''img1-sepia.png'']"] p l
  have 1: "shared [''img1-sepia.png''] 1001 ''share-1'' (snd shares_example) =
     (SharedError 410 ''Shared link has expired'', (snd shares_example)(''share-1'' := None))"
    by blast
  from expired_share_token_is_evicted[where listing="[''img1-sepia.png'']" and uuid="''share-1''"
      and created=1000 and requester="Some ''alice''" and imageId_in="Some ''img1''"
      and filterName_in="Some ''sepia''" and before=Map.empty and t="''share-1''" and e=1000
      and m'="snd shares_example" and now=1000 and processed="[''img1-sepia.png'']"] p l
  have "\<exists>file. file \<in> set [''img1-sepia.png''] \<and>
            shared [''img1-sepia.png''] 1000 ''share-1'' (snd shares_example) =
              (if file \<in> set [''img1-sepia.png''] then SendFile file
               else SharedError 404 ''Image file not found'', snd shares_example)"
    by blast
  then have 3: "shared [''img1-sepia.png''] 1000 ''share-1'' (snd shares_example) =
     (SendFile ''img1-sepia.png'', snd shares_example)" by auto
  have 2: "shared [''img1-sepia.png''] 1002 ''share-1'' ((snd shares_example)(''share-1'' := None)) =
        (SharedError 404 ''Shared link not found or expired'', (snd shares_example)(''share-1'' := None))"
    by (simp add: shared_def)
  from c 1 2 3 show ?thesis by simp
qed


subsection \<open>Registration\<close>

lemma register_free_username:
  assumes n: "nonempty username_in = Some name" and p: "nonempty password_in = Some pw"
    and free: "map_of (table w) name = None" and f: "faults w = []" and u: "uuid \<noteq> []"
    and r: "register hashedPassword uuid mailer now username_in password_in email_in w = (resp, w')"
  shows "status resp = 201 \<and>
     (\<exists>it. map_of (table w') name = Some it \<and> password it = Some hashedPassword \<and>
           emailVerified it = Some False \<and> emailVerificationToken it = Some uuid) \<and>
     ((body_token resp \<noteq> None \<and> body_refreshToken resp \<noteq> None) =
        (\<not> truthy email_in \<or> sendVerificationEmail mailer)) \<and>
     ((body_token resp = None \<and> body_refreshToken resp = None) =
        (truthy email_in \<and> \<not> sendVerificationEmail mailer)) \<and>
     (\<forall>rt. body_refreshToken resp = Some rt \<longrightarrow> token_in_set (table w') name rt)"
  using r n p free f u
  by (auto simp: register_def store_defs Let_def map_of_put_item
      token_in_set_def nonempty_def truthy_def or_else_def
      split: if_splits option.splits)


text \<open>
  Claim C9. For a request with username and password, a free username and a store that
  answers, registration replies 201 and stores the user with the hashed password,
  \<open>emailVerified\<close> false and the pending verification token. The reply carries an access
  and a refresh token exactly if no email address was given or the verification mail was
  sent; it carries \<^verbatim>\<open>null\<close> for both exactly if an address was given and sending failed.
  An issued refresh token is in the user's stored list.
\<close>

theorem register_issues_tokens_iff_no_email_or_mail_sent:
  "nonempty username_in = Some name \<and> nonempty password_in = Some pw \<and>
   map_of (table w) name = None \<and> faults w = [] \<and> uuid \<noteq> [] \<and>
   register hashedPassword uuid mailer now username_in password_in email_in w = (resp, w') \<longrightarrow>
     status resp = 201 \<and>
     (\<exists>it. map_of (table w') name = Some it \<and> password it = Some hashedPassword \<and>
           emailVerified it = Some False \<and> emailVerificationToken it = Some uuid) \<and>
     ((body_token resp \<noteq> None \<and> body_refreshToken resp \<noteq> None) =
        (\<not> truthy email_in \<or> sendVerificationEmail mailer)) \<and>
     ((body_token resp = None \<and> body_refreshToken resp = None) =
        (truthy email_in \<and> \<not> sendVerificationEmail mailer)) \<and>
     (\<forall>rt. body_refreshToken resp = Some rt \<longrightarrow> token_in_set (table w') name rt)"
  using register_free_username[of username_in name password_in pw w uuid hashedPassword mailer now
      email_in resp w']
  by blast

theorem register_issues_tokens_iff_no_email_or_mail_sent_witness:
  "nonempty (Some ''bob'') = Some ''bob'' \<and> nonempty (Some ''Secret123!'') = Some ''Secret123!'' \<and>
   map_of (table world_registered) ''bob'' = None \<and> faults world_registered = [] \<and>
   truthy (Some ''bob@example.com'') \<and> \<not> sendVerificationEmail (Inl MailError) \<and>
   status (fst (register_bob (Some ''bob@example.com'') (Inl MailError))) = 201 \<and>
   body_token (fst (register_bob (Some ''bob@example.com'') (Inl MailError))) = None \<and>
   body_refreshToken (fst (register_bob (Some ''bob@example.com'') (Inl MailError))) = None \<and>
   map_option emailVerificationToken
     (map_of (table (snd (register_bob (Some ''bob@example.com'') (Inl MailError)))) ''bob'') =
     Some (Some ''uuid-2'') \<and>
   \<not> truthy None \<and>
   body_token (fst (register_bob None (Inl MailError))) \<noteq> None \<and>
   body_refreshToken (fst (register_bob None (Inl MailError))) \<noteq> None \<and>
   sendVerificationEmail (Inr ()) \<and>
   body_token (fst (register_bob (Some ''bob@example.com'') (Inr ()))) \<noteq> None \<and>
   body_refreshToken (fst (register_bob (Some ''bob@example.com'') (Inr ()))) \<noteq> None"
proof -
  have h: "nonempty (Some ''bob'') = Some ''bob''" "nonempty (Some ''Secret123!'') = Some ''Secret123!''"
    "map_of (table world_registered) ''bob'' = None" "faults world_registered = []"
    "''uuid-2'' \<noteq> []"
    by (simp_all add: nonempty_def truthy_def example_defs)
  have m: "truthy (Some ''bob@example.com'')" "\<not> sendVerificationEmail (Inl MailError)"
    "\<not> truthy None" "sendVerificationEmail (Inr ())"
    by (simp_all add: truthy_def sendVerificationEmail_def)
  have inst: "status (fst (register_bob e ml)) = 201 \<and>
     (\<exists>it. map_of (table (snd (register_bob e ml))) ''bob'' = Some it \<and>
           password it = Some ''$2a$10$bobhash'' \<and>
           emailVerified it = Some False \<and> emailVerificationToken it = Some ''uuid-2'') \<and>
     ((body_token (fst (register_bob e ml)) \<noteq> None \<and> body_refreshToken (fst (register_bob e ml)) \<noteq> None) =
        (\<not> truthy e \<or> sendVerificationEmail ml)) \<and>
     ((body_token (fst (register_bob e ml)) = None \<and> body_refreshToken (fst (register_bob e ml)) = None) =
        (truthy e \<and> \<not> sendVerificationEmail ml))" for e ml
    using register_issues_tokens_iff_no_email_or_mail_sent[of "Some ''bob''" "''bob''"
        "Some ''Secret123!''" "''Secret123!''" world_registered "''uuid-2''" "''$2a$10$bobhash''" ml 2000 e
        "fst (register_bob e ml)" "snd (register_bob e ml)"] h
    by (simp add: register_bob_def)
  from inst[of "Some ''bob@example.com''" "Inl MailError"] m
  have 1: "status (fst (register_bob (Some ''bob@example.com'') (Inl MailError))) = 201"
    "body_token (fst (register_bob (Some ''bob@example.com'') (Inl MailError))) = None"
    "body_refreshToken (fst (register_bob (Some ''bob@example.com'') (Inl MailError))) = None"
    "map_option emailVerificationToken
     (map_of (table (snd (register_bob (Some ''bob@example.com'') (Inl MailError)))) ''bob'') =
     Some (Some ''uuid-2'')"
    by auto
  from inst[of None "Inl MailError"] m
  have 2: "body_token (fst (register_bob None (Inl MailError))) \<noteq> None"
    "body_refreshToken (fst (register_bob None (Inl MailError))) \<noteq> None"
    by auto
  from inst[of "Some ''bob@example.com''" "Inr ()"] m
  have 3: "body_token (fst (register_bob (Some ''bob@example.com'') (Inr ()))) \<noteq> None"
    "body_refreshToken (fst (register_bob (Some ''bob@example.com'') (Inr ()))) \<noteq> None"
    by auto
  from h m 1 2 3 show ?thesis by blast
qed


end
